theory Spec2Isabelle
  imports Main "HOL-Library.AList" "HOL-Library.Word"
begin

section \<open>Python values, dictionaries and exceptions\<close>

text \<open>
  The two adapters (\<^verbatim>\<open>H5pyDataSet\<close> in \<^verbatim>\<open>hdf5/h5py_dataset.py\<close> and
  \<^verbatim>\<open>PlotlyDataSet\<close> in \<^verbatim>\<open>plotly/plotly_dataset.py\<close>) pass configuration around as
  Python dictionaries. A dictionary is an association list in insertion order; a byte
  string is a list of 8-bit words.
\<close>

type_synonym raw_bytes = "8 word list"

datatype pyval =
    PNone
  | PBool bool
  | PInt int
  | PStr string
  | PList "pyval list"
  | PDict "(string \<times> pyval) list"
  | PPath string
  | PVersion "string option" "string option"

type_synonym pydict = "(string \<times> pyval) list"

text \<open>\<^verbatim>\<open>Version = namedtuple("Version", ["load", "save"])\<close>\<close>

type_synonym version = "string option \<times> string option"

text \<open>
  The exception classes the code can meet. \<^verbatim>\<open>VersionNotFoundError\<close> is a subclass of
  \<^verbatim>\<open>DataSetError\<close>, so \<^verbatim>\<open>except DataSetError\<close> catches both.
\<close>

datatype error =
    DataSetError
  | VersionNotFoundError
  | AttributeError
  | TypeError
  | KeyError
  | ValueError
  | OSError
  | RuntimeError

fun isinstance_DataSetError :: "error \<Rightarrow> bool" where
  "isinstance_DataSetError DataSetError = True"
| "isinstance_DataSetError VersionNotFoundError = True"
| "isinstance_DataSetError _ = False"

definition keys :: "pydict \<Rightarrow> string list" where
  "keys d = map fst d"

text \<open>\<^verbatim>\<open>d.get(k, default)\<close>\<close>

definition dict_get :: "pydict \<Rightarrow> string \<Rightarrow> pyval \<Rightarrow> pyval" where
  "dict_get d k dflt = (case map_of d k of None \<Rightarrow> dflt | Some v \<Rightarrow> v)"

text \<open>\<^verbatim>\<open>d.pop(k, default)\<close>: the value and the dictionary without the key.\<close>

definition dict_pop :: "pydict \<Rightarrow> string \<Rightarrow> pyval \<Rightarrow> pyval \<times> pydict" where
  "dict_pop d k dflt = (dict_get d k dflt, AList.delete k d)"

text \<open>\<^verbatim>\<open>d.setdefault(k, v)\<close>: an existing entry is kept as it is.\<close>

definition dict_setdefault :: "pydict \<Rightarrow> string \<Rightarrow> pyval \<Rightarrow> pydict" where
  "dict_setdefault d k v = (case map_of d k of None \<Rightarrow> AList.update k v d | Some _ \<Rightarrow> d)"

text \<open>\<^verbatim>\<open>d.update(e)\<close> and \<^verbatim>\<open>{**d, **e}\<close>: later keys win.\<close>

definition dict_update :: "pydict \<Rightarrow> pydict \<Rightarrow> pydict" where
  "dict_update d e = fold (\<lambda>(k, v). AList.update k v) e d"

text \<open>
  A call \<^verbatim>\<open>f(p1, ..., **a, **b)\<close>: Python raises \<^verbatim>\<open>TypeError\<close> when a keyword is given
  twice, or when a keyword names a parameter already bound by position.
\<close>

definition merge_kwargs :: "string list \<Rightarrow> pydict \<Rightarrow> pydict \<Rightarrow> error + pydict" where
  "merge_kwargs positional a b =
     (if list_ex (\<lambda>k. k \<in> set (keys b)) (keys a) then Inl TypeError
      else if list_ex (\<lambda>k. k \<in> set positional) (keys a @ keys b) then Inl TypeError
      else Inr (a @ b))"

text \<open>\<^verbatim>\<open>**x\<close> needs a mapping.\<close>

definition as_mapping :: "pyval \<Rightarrow> error + pydict" where
  "as_mapping x = (case x of PDict d \<Rightarrow> Inr d | _ \<Rightarrow> Inl TypeError)"

section \<open>Effects: calls to the external collaborators, in order\<close>

text \<open>
  The class attribute \<^verbatim>\<open>_lock = Lock()\<close> is one lock shared by all instances.
\<close>

datatype lock = Lock string

definition H5pyDataSet_lock :: lock where
  "H5pyDataSet_lock = Lock ''H5pyDataSet._lock''"

datatype event =
    Acquire lock
  | Release lock
  | GetLoadPath
  | GetSavePath
  | FsOpen string pydict
  | FsRead
  | FsWrite raw_bytes
  | FsClose
  | FsExists string
  | FsInvalidateCache string
  | H5fOpen raw_bytes
  | H5File pydict
  | H5Create pydict
  | H5Copy string bool bool bool
  | H5Close
  | PxCall string pydict
  | UpdateLayout "pyval option" pydict
  | JsonSave

text \<open>
  A computation returns a value or raises, and leaves the list of external calls it made.
\<close>

type_synonym 'a io = "(error + 'a) \<times> event list"

definition io_return :: "'a \<Rightarrow> 'a io" where
  "io_return x = (Inr x, [])"

definition io_raise :: "error \<Rightarrow> 'a io" where
  "io_raise e = (Inl e, [])"

definition io_lift :: "error + 'a \<Rightarrow> 'a io" where
  "io_lift r = (r, [])"

definition io_bind :: "'a io \<Rightarrow> ('a \<Rightarrow> 'b io) \<Rightarrow> 'b io" where
  "io_bind m f =
     (case m of
        (Inl e, t) \<Rightarrow> (Inl e, t)
      | (Inr x, t) \<Rightarrow> (case f x of (r, t') \<Rightarrow> (r, t @ t')))"

text \<open>One external call: the event is recorded whether the call returns or raises.\<close>

definition call :: "event \<Rightarrow> error + 'a \<Rightarrow> 'a io" where
  "call ev outcome = (outcome, [ev])"

text \<open>\<^verbatim>\<open>with lock: body\<close> releases the lock on every exit, normal or exceptional.\<close>

definition with_lock :: "lock \<Rightarrow> 'a io \<Rightarrow> 'a io" where
  "with_lock l body = (case body of (r, t) \<Rightarrow> (r, [Acquire l] @ t @ [Release l]))"

section \<open>The external filesystem (fsspec)\<close>

text \<open>
  The filesystem object returned by \<^verbatim>\<open>fsspec.filesystem\<close> is an external collaborator:
  its methods are parameters. \<^typ>\<open>'f\<close> is the type of an open stream.
\<close>

record 'f filesystem =
  fs_open :: "string \<Rightarrow> pydict \<Rightarrow> error + 'f"
  fs_read :: "'f \<Rightarrow> error + raw_bytes"
  fs_write :: "'f \<Rightarrow> raw_bytes \<Rightarrow> error + unit"
  fs_close :: "'f \<Rightarrow> error + unit"
  fs_exists :: "string \<Rightarrow> error + bool"
  fs_invalidate_cache :: "string \<Rightarrow> error + unit"

text \<open>
  \<^verbatim>\<open>with fs.open(path, **open_args) as fs_file: body\<close>. The stream is closed on every
  exit of the body; an exception raised by the close replaces the body's.
\<close>

definition with_fs_open ::
  "'f filesystem \<Rightarrow> string \<Rightarrow> pyval \<Rightarrow> ('f \<Rightarrow> 'a io) \<Rightarrow> 'a io" where
  "with_fs_open fs path open_args body =
     io_bind (io_lift (as_mapping open_args)) (\<lambda>d.
     io_bind (io_lift (merge_kwargs [''path''] [] d)) (\<lambda>kw.
     io_bind (call (FsOpen path kw) (fs_open fs path kw)) (\<lambda>fs_file.
       (case body fs_file of (r, t) \<Rightarrow>
          (case fs_close fs fs_file of
             Inl e \<Rightarrow> (Inl e, t @ [FsClose])
           | Inr _ \<Rightarrow> (r, t @ [FsClose]))))))"

section \<open>The hierarchical-container library (h5py)\<close>

text \<open>
  A file-access property list, as far as \<^verbatim>\<open>__h5py_from_binary\<close> sets it up. Setting an
  empty buffer as the file image raises \<^verbatim>\<open>ValueError\<close>.
\<close>

record fapl =
  fapl_core_backing_store :: "bool option"
  fapl_file_image :: "raw_bytes option"

definition h5p_create_FILE_ACCESS :: fapl where
  "h5p_create_FILE_ACCESS = \<lparr>fapl_core_backing_store = None, fapl_file_image = None\<rparr>"

definition set_fapl_core :: "bool \<Rightarrow> fapl \<Rightarrow> fapl" where
  "set_fapl_core backing_store p = p\<lparr>fapl_core_backing_store := Some backing_store\<rparr>"

definition set_file_image :: "raw_bytes \<Rightarrow> fapl \<Rightarrow> error + fapl" where
  "set_file_image binary p =
     (if binary = [] then Inl ValueError else Inr (p\<lparr>fapl_file_image := Some binary\<rparr>))"

datatype h5f_flags = ACC_RDONLY | ACC_RDWR

text \<open>
  The library is a black box with given signatures: \<^typ>\<open>'fid\<close> a low-level file id,
  \<^typ>\<open>'h\<close> an open container handle, \<^typ>\<open>'o\<close> a group or dataset of a handle,
  \<^typ>\<open>'w\<close> a container being written into a memory buffer.
  \<^item> \<open>candidate_name\<close>: \<^verbatim>\<open>next(tempfile._get_candidate_names())\<close>;
  \<^item> \<open>h5f_open\<close>: \<^verbatim>\<open>h5py.h5f.open(name=, flags=, fapl=)\<close>;
  \<^item> \<open>h5py_File\<close>: \<^verbatim>\<open>h5py.File(file_id, **kwargs)\<close>;
  \<^item> \<open>h5py_File_bio\<close>: \<^verbatim>\<open>h5py.File(bio, mode, **kwargs)\<close> on a \<^verbatim>\<open>BytesIO\<close> with the
    given content;
  \<^item> \<open>h5_items\<close>: \<^verbatim>\<open>h5f.items()\<close>;
  \<^item> \<open>h5_copy\<close>: \<^verbatim>\<open>h5f.copy(value, biof, expand_soft=, expand_external=, expand_refs=)\<close>;
  \<^item> \<open>h5_close_getvalue\<close>: \<^verbatim>\<open>biof.close()\<close> followed by \<^verbatim>\<open>bio.getvalue()\<close>.
\<close>

record ('fid, 'h, 'o, 'w) h5py_lib =
  candidate_name :: string
  h5f_open :: "string \<Rightarrow> h5f_flags \<Rightarrow> fapl \<Rightarrow> error + 'fid"
  h5py_File :: "'fid \<Rightarrow> pydict \<Rightarrow> error + 'h"
  h5py_File_bio :: "raw_bytes \<Rightarrow> string \<Rightarrow> pydict \<Rightarrow> error + 'w"
  h5_items :: "'h \<Rightarrow> (string \<times> 'o) list"
  h5_copy :: "'h \<Rightarrow> 'o \<Rightarrow> 'w \<Rightarrow> bool \<Rightarrow> bool \<Rightarrow> bool \<Rightarrow> error + 'w"
  h5_close_getvalue :: "'w \<Rightarrow> raw_bytes"

definition h5_file_args :: pydict where
  "h5_file_args =
     [(''backing_store'', PBool False), (''driver'', PStr ''core''), (''mode'', PStr ''r'')]"

text \<open>\<^verbatim>\<open>H5pyDataSet.__h5py_from_binary(binary, load_args)\<close>\<close>

definition h5py_from_binary ::
  "('fid, 'h, 'o, 'w) h5py_lib \<Rightarrow> raw_bytes \<Rightarrow> pydict \<Rightarrow> 'h io" where
  "h5py_from_binary lib binary load_args =
     io_bind (io_lift (set_file_image binary (set_fapl_core False h5p_create_FILE_ACCESS)))
       (\<lambda>file_access_property_list.
     io_bind (call (H5fOpen binary)
                (h5f_open lib (candidate_name lib) ACC_RDONLY file_access_property_list))
       (\<lambda>file_id.
     io_bind (io_lift (merge_kwargs [''name''] h5_file_args load_args)) (\<lambda>kw.
       call (H5File kw) (h5py_File lib file_id kw))))"

text \<open>The loop \<^verbatim>\<open>for _, value in h5f.items(): h5f.copy(value, biof, ...)\<close>.\<close>

fun copy_items ::
  "('fid, 'h, 'o, 'w) h5py_lib \<Rightarrow> 'h \<Rightarrow> (string \<times> 'o) list \<Rightarrow> 'w \<Rightarrow> 'w io" where
  "copy_items lib h5f [] biof = io_return biof"
| "copy_items lib h5f ((k, v) # rest) biof =
     io_bind (call (H5Copy k True True True) (h5_copy lib h5f v biof True True True))
       (\<lambda>biof'. copy_items lib h5f rest biof')"

text \<open>
  \<^verbatim>\<open>H5pyDataSet.__h5py_to_binary(h5f, save_args)\<close>. When the body of the \<^verbatim>\<open>with\<close> raises,
  leaving the block closes the new container and the exception goes on.
\<close>

definition h5py_to_binary ::
  "('fid, 'h, 'o, 'w) h5py_lib \<Rightarrow> 'h \<Rightarrow> pydict \<Rightarrow> raw_bytes io" where
  "h5py_to_binary lib h5f save_args =
     io_bind (io_lift (merge_kwargs [''name'', ''mode''] [] save_args)) (\<lambda>kw.
     io_bind (call (H5Create kw) (h5py_File_bio lib [] ''w'' kw)) (\<lambda>biof.
       (case copy_items lib h5f (h5_items lib h5f) biof of
          (Inl e, t) \<Rightarrow> (Inl e, t @ [H5Close])
        | (Inr biof', t) \<Rightarrow> (Inr (h5_close_getvalue lib biof'), t @ [H5Close]))))"

section \<open>\<^verbatim>\<open>H5pyDataSet\<close>\<close>

text \<open>The instance attributes set by \<^verbatim>\<open>__init__\<close>.\<close>

record 'f H5pyDataSet =
  ds_protocol :: string
  ds_fs :: "'f filesystem"
  ds_filepath :: string
  ds_version :: "version option"
  ds_load_args :: pydict
  ds_save_args :: pydict
  ds_fs_open_args_load :: pyval
  ds_fs_open_args_save :: pydict

text \<open>
  What the adapter consumes from \<^verbatim>\<open>kedro.io.core\<close> and from \<^verbatim>\<open>fsspec\<close>; they are
  parameters:
  \<^item> \<open>get_protocol_and_path\<close>, \<open>get_filepath_str\<close>: the module-level helpers;
  \<^item> \<open>get_load_path\<close>, \<open>get_save_path\<close>: \<^verbatim>\<open>AbstractVersionedDataSet._get_load_path\<close> and
    \<^verbatim>\<open>_get_save_path\<close>, which raise a \<^verbatim>\<open>DataSetError\<close> when the path cannot be resolved;
  \<^item> \<open>fsspec_filesystem\<close>: \<^verbatim>\<open>fsspec.filesystem(protocol, **storage_options)\<close>.
\<close>

record 'f kedro_core =
  get_protocol_and_path :: "string \<Rightarrow> version option \<Rightarrow> error + string \<times> string"
  get_filepath_str :: "string \<Rightarrow> string \<Rightarrow> string"
  get_load_path :: "'f H5pyDataSet \<Rightarrow> error + string"
  get_save_path :: "'f H5pyDataSet \<Rightarrow> error + string"
  fsspec_filesystem :: "string \<Rightarrow> pydict \<Rightarrow> error + 'f filesystem"

definition DEFAULT_LOAD_ARGS :: pydict where
  "DEFAULT_LOAD_ARGS = []"

definition DEFAULT_SAVE_ARGS :: pydict where
  "DEFAULT_SAVE_ARGS = []"

text \<open>\<^verbatim>\<open>deepcopy(d) or {}\<close>\<close>

definition or_empty :: "pydict option \<Rightarrow> pydict" where
  "or_empty d = (case d of None \<Rightarrow> [] | Some x \<Rightarrow> x)"

text \<open>\<^verbatim>\<open>x.setdefault(k, v)\<close> on a value that may not be a dictionary.\<close>

definition val_setdefault :: "pyval \<Rightarrow> string \<Rightarrow> pyval \<Rightarrow> error + pydict" where
  "val_setdefault x k v =
     (case x of PDict d \<Rightarrow> Inr (dict_setdefault d k v) | _ \<Rightarrow> Inl AttributeError)"

text \<open>
  \<^verbatim>\<open>H5pyDataSet.__init__\<close>. \<^verbatim>\<open>super().__init__\<close> stores the path and the version.
\<close>

definition init ::
  "'f kedro_core \<Rightarrow> string \<Rightarrow> pydict option \<Rightarrow> pydict option \<Rightarrow> version option \<Rightarrow>
     pydict option \<Rightarrow> pydict option \<Rightarrow> error + 'f H5pyDataSet" where
  "init core filepath load_args save_args version credentials fs_args =
     (let fs_args0 = or_empty fs_args;
          (fs_open_args_load, fs_args1) = dict_pop fs_args0 ''open_args_load'' (PDict []);
          (fs_open_args_save, fs_args2) = dict_pop fs_args1 ''open_args_save'' (PDict []);
          credentials' = or_empty credentials
      in case get_protocol_and_path core filepath version of
           Inl e \<Rightarrow> Inl e
         | Inr (protocol, path) \<Rightarrow>
             (let fs_args3 = (if protocol = ''file''
                              then dict_setdefault fs_args2 ''auto_mkdir'' (PBool True)
                              else fs_args2)
              in case merge_kwargs [''protocol''] credentials' fs_args3 of
                   Inl e \<Rightarrow> Inl e
                 | Inr storage_options \<Rightarrow>
                     (case fsspec_filesystem core protocol storage_options of
                        Inl e \<Rightarrow> Inl e
                      | Inr fs \<Rightarrow>
                          (let load_args' = (case load_args of
                                               None \<Rightarrow> DEFAULT_LOAD_ARGS
                                             | Some a \<Rightarrow> dict_update DEFAULT_LOAD_ARGS a);
                               save_args' = (case save_args of
                                               None \<Rightarrow> DEFAULT_SAVE_ARGS
                                             | Some a \<Rightarrow> dict_update DEFAULT_SAVE_ARGS a)
                           in case val_setdefault fs_open_args_save ''mode'' (PStr ''wb'') of
                                Inl e \<Rightarrow> Inl e
                              | Inr open_args_save \<Rightarrow>
                                  Inr \<lparr>ds_protocol = protocol,
                                       ds_fs = fs,
                                       ds_filepath = path,
                                       ds_version = version,
                                       ds_load_args = load_args',
                                       ds_save_args = save_args',
                                       ds_fs_open_args_load = fs_open_args_load,
                                       ds_fs_open_args_save = open_args_save\<rparr>))))"

definition version_val :: "version option \<Rightarrow> pyval" where
  "version_val v = (case v of None \<Rightarrow> PNone | Some (l, s) \<Rightarrow> PVersion l s)"

text \<open>\<^verbatim>\<open>H5pyDataSet._describe\<close>\<close>

definition describe :: "'f H5pyDataSet \<Rightarrow> pydict" where
  "describe ds =
     [(''filepath'', PPath (ds_filepath ds)),
      (''protocol'', PStr (ds_protocol ds)),
      (''load_args'', PDict (ds_load_args ds)),
      (''save_args'', PDict (ds_save_args ds)),
      (''version'', version_val (ds_version ds))]"

text \<open>\<^verbatim>\<open>H5pyDataSet._load\<close>\<close>

definition load ::
  "'f kedro_core \<Rightarrow> ('fid, 'h, 'o, 'w) h5py_lib \<Rightarrow> 'f H5pyDataSet \<Rightarrow> 'h io" where
  "load core lib ds =
     io_bind (call GetLoadPath (get_load_path core ds)) (\<lambda>p.
       (let load_path = get_filepath_str core p (ds_protocol ds)
        in io_bind (with_fs_open (ds_fs ds) load_path (ds_fs_open_args_load ds)
                      (\<lambda>fs_file. call FsRead (fs_read (ds_fs ds) fs_file)))
             (\<lambda>binary_data.
                with_lock H5pyDataSet_lock
                  (h5py_from_binary lib binary_data (ds_load_args ds)))))"

text \<open>\<^verbatim>\<open>H5pyDataSet._invalidate_cache\<close>\<close>

definition invalidate_cache :: "'f kedro_core \<Rightarrow> 'f H5pyDataSet \<Rightarrow> unit io" where
  "invalidate_cache core ds =
     (let filepath = get_filepath_str core (ds_filepath ds) (ds_protocol ds)
      in call (FsInvalidateCache filepath) (fs_invalidate_cache (ds_fs ds) filepath))"

text \<open>\<^verbatim>\<open>H5pyDataSet._save\<close>\<close>

definition save ::
  "'f kedro_core \<Rightarrow> ('fid, 'h, 'o, 'w) h5py_lib \<Rightarrow> 'f H5pyDataSet \<Rightarrow> 'h \<Rightarrow> unit io" where
  "save core lib ds data =
     io_bind (call GetSavePath (get_save_path core ds)) (\<lambda>p.
       (let save_path = get_filepath_str core p (ds_protocol ds)
        in io_bind (with_lock H5pyDataSet_lock (h5py_to_binary lib data (ds_save_args ds)))
             (\<lambda>binary_data.
           io_bind (with_fs_open (ds_fs ds) save_path (PDict (ds_fs_open_args_save ds))
                      (\<lambda>fs_file. call (FsWrite binary_data)
                                    (fs_write (ds_fs ds) fs_file binary_data)))
             (\<lambda>_. invalidate_cache core ds))))"

text \<open>
  \<^verbatim>\<open>H5pyDataSet._exists\<close>: the \<^verbatim>\<open>try\<close> covers the path resolution only; the call of
  \<^verbatim>\<open>self._fs.exists\<close> is outside it.
\<close>

definition exists :: "'f kedro_core \<Rightarrow> 'f H5pyDataSet \<Rightarrow> bool io" where
  "exists core ds =
     (case call GetLoadPath (get_load_path core ds) of
        (Inl e, t) \<Rightarrow> (if isinstance_DataSetError e then (Inr False, t) else (Inl e, t))
      | (Inr p, t) \<Rightarrow>
          (let load_path = get_filepath_str core p (ds_protocol ds)
           in io_bind (Inr load_path, t)
                (\<lambda>load_path. call (FsExists load_path) (fs_exists (ds_fs ds) load_path))))"

section \<open>\<^verbatim>\<open>PlotlyDataSet\<close>\<close>

text \<open>
  \<^verbatim>\<open>getattr(px, plot_type)\<close> returns whatever attribute the module \<^verbatim>\<open>plotly.express\<close> has
  under that name: a callable or not. A callable returns a figure or some other object.
\<close>

datatype 'fig pyobj = Figure 'fig | OtherObject

datatype ('df, 'fig) px_attr =
    Callable "'df \<Rightarrow> pydict \<Rightarrow> error + 'fig pyobj"
  | NotCallable

text \<open>
  The charting library is a black box: \<open>px\<close> is the namespace of \<^verbatim>\<open>plotly.express\<close>,
  \<open>update_layout\<close> is \<^verbatim>\<open>Figure.update_layout(dict1=None, **kwargs)\<close>.
\<close>

record ('df, 'fig) plotly_lib =
  px :: "string \<Rightarrow> ('df, 'fig) px_attr option"
  update_layout :: "'fig \<Rightarrow> pyval option \<Rightarrow> pydict \<Rightarrow> error + 'fig"

text \<open>
  The parent class \<^verbatim>\<open>JSONDataSet\<close> (\<^verbatim>\<open>from .json_dataset import JSONDataSet\<close>) is not part
  of the two files; its constructor, \<^verbatim>\<open>_describe\<close> and \<^verbatim>\<open>_save\<close> are parameters.
\<close>

record ('j, 'fig) json_dataset =
  JSONDataSet_init ::
    "string \<Rightarrow> pydict option \<Rightarrow> pydict option \<Rightarrow> version option \<Rightarrow>
       pydict option \<Rightarrow> pydict option \<Rightarrow> error + 'j"
  JSONDataSet_describe :: "'j \<Rightarrow> pydict"
  JSONDataSet_save :: "'j \<Rightarrow> 'fig \<Rightarrow> unit io"

record 'j PlotlyDataSet =
  pds_super :: 'j
  pds_plotly_args :: pydict

text \<open>\<^verbatim>\<open>PlotlyDataSet.__init__\<close>\<close>

definition PlotlyDataSet_init ::
  "('j, 'fig) json_dataset \<Rightarrow> string \<Rightarrow> pydict \<Rightarrow> pydict option \<Rightarrow> pydict option \<Rightarrow>
     version option \<Rightarrow> pydict option \<Rightarrow> pydict option \<Rightarrow> error + 'j PlotlyDataSet" where
  "PlotlyDataSet_init parent filepath plotly_args load_args save_args version credentials fs_args =
     (case JSONDataSet_init parent filepath load_args save_args version credentials fs_args of
        Inl e \<Rightarrow> Inl e
      | Inr j \<Rightarrow> Inr \<lparr>pds_super = j, pds_plotly_args = plotly_args\<rparr>)"

text \<open>\<^verbatim>\<open>PlotlyDataSet._describe\<close>\<close>

definition PlotlyDataSet_describe ::
  "('j, 'fig) json_dataset \<Rightarrow> 'j PlotlyDataSet \<Rightarrow> pydict" where
  "PlotlyDataSet_describe parent ds =
     dict_update (JSONDataSet_describe parent (pds_super ds))
       [(''plotly_args'', PDict (pds_plotly_args ds))]"

text \<open>\<^verbatim>\<open>getattr(px, name)\<close>: the name must be a string.\<close>

definition getattr_px ::
  "('df, 'fig) plotly_lib \<Rightarrow> pyval \<Rightarrow> error + string \<times> ('df, 'fig) px_attr" where
  "getattr_px lib name =
     (case name of
        PStr s \<Rightarrow> (case px lib s of None \<Rightarrow> Inl AttributeError | Some a \<Rightarrow> Inr (s, a))
      | _ \<Rightarrow> Inl TypeError)"

text \<open>\<^verbatim>\<open>PlotlyDataSet._plot_dataframe\<close>\<close>

definition plot_dataframe ::
  "('df, 'fig) plotly_lib \<Rightarrow> pydict \<Rightarrow> 'df \<Rightarrow> 'fig io" where
  "plot_dataframe lib plotly_args data =
     (let plot_type = dict_get plotly_args ''type'' PNone;
          fig_params = dict_get plotly_args ''fig'' (PDict [])
      in io_bind (io_lift (getattr_px lib plot_type)) (\<lambda>(name, attr).
         io_bind (io_lift (as_mapping fig_params)) (\<lambda>kw.
           (case attr of
              NotCallable \<Rightarrow> io_raise TypeError
            | Callable f \<Rightarrow>
                io_bind (call (PxCall name kw) (f data kw)) (\<lambda>obj.
                  (case obj of
                     OtherObject \<Rightarrow> io_raise AttributeError
                   | Figure fig \<Rightarrow>
                       (let template = [(''template'', dict_get plotly_args ''theme'' (PStr ''plotly''))];
                            layout = dict_get plotly_args ''layout'' (PDict [])
                        in io_bind (call (UpdateLayout None template)
                                      (update_layout lib fig None template)) (\<lambda>fig.
                           io_bind (call (UpdateLayout (Some layout) [])
                                      (update_layout lib fig (Some layout) [])) (\<lambda>fig.
                           io_return fig)))))))))"

text \<open>\<^verbatim>\<open>PlotlyDataSet._save\<close>\<close>

definition PlotlyDataSet_save ::
  "('df, 'fig) plotly_lib \<Rightarrow> ('j, 'fig) json_dataset \<Rightarrow> 'j PlotlyDataSet \<Rightarrow> 'df \<Rightarrow> unit io" where
  "PlotlyDataSet_save lib parent ds data =
     io_bind (plot_dataframe lib (pds_plotly_args ds) data) (\<lambda>fig.
       JSONDataSet_save parent (pds_super ds) fig)"

text \<open>
  The specification's words for the same operation: construct a figure, then persist it
  exactly as the structured-text codec persists any value. A failed construction persists
  nothing.
\<close>

definition spec_save ::
  "('df, 'fig) plotly_lib \<Rightarrow> ('j, 'fig) json_dataset \<Rightarrow> 'j PlotlyDataSet \<Rightarrow> 'df \<Rightarrow> unit io" where
  "spec_save lib parent ds data =
     (let built = plot_dataframe lib (pds_plotly_args ds) data
      in case fst built of
           Inl e \<Rightarrow> (Inl e, snd built)
         | Inr fig \<Rightarrow>
             (let persisted = JSONDataSet_save parent (pds_super ds) fig
              in (fst persisted, snd built @ snd persisted)))"

section \<open>Properties of call sequences\<close>

fun is_h5_event :: "event \<Rightarrow> bool" where
  "is_h5_event (H5fOpen _) = True"
| "is_h5_event (H5File _) = True"
| "is_h5_event (H5Create _) = True"
| "is_h5_event (H5Copy _ _ _ _) = True"
| "is_h5_event H5Close = True"
| "is_h5_event _ = False"

fun is_lock_event :: "event \<Rightarrow> bool" where
  "is_lock_event (Acquire _) = True"
| "is_lock_event (Release _) = True"
| "is_lock_event _ = False"

text \<open>Byte-stream I/O on the external filesystem.\<close>

fun is_stream_event :: "event \<Rightarrow> bool" where
  "is_stream_event (FsOpen _ _) = True"
| "is_stream_event FsRead = True"
| "is_stream_event (FsWrite _) = True"
| "is_stream_event FsClose = True"
| "is_stream_event _ = False"

text \<open>
  \<open>lock_discipline l held es\<close>: along \<open>es\<close>, starting with the lock \<open>l\<close> held or not, the
  only lock used is \<open>l\<close>, it is never acquired while held nor released while free, it is
  free at the end, and a call happens while it is held exactly when it is a call into
  the container library.
\<close>

fun lock_discipline :: "lock \<Rightarrow> bool \<Rightarrow> event list \<Rightarrow> bool" where
  "lock_discipline l held [] = (\<not> held)"
| "lock_discipline l held (Acquire l' # es) = (l' = l \<and> \<not> held \<and> lock_discipline l True es)"
| "lock_discipline l held (Release l' # es) = (l' = l \<and> held \<and> lock_discipline l False es)"
| "lock_discipline l held (e # es) = (held = is_h5_event e \<and> lock_discipline l held es)"

text \<open>No byte-stream I/O from the first acquisition of the lock on.\<close>

definition stream_io_before_lock :: "lock \<Rightarrow> event list \<Rightarrow> bool" where
  "stream_io_before_lock l es =
     list_all (\<lambda>e. \<not> is_stream_event e) (dropWhile (\<lambda>e. e \<noteq> Acquire l) es)"

text \<open>No byte-stream I/O up to the last release of the lock.\<close>

definition stream_io_after_lock :: "lock \<Rightarrow> event list \<Rightarrow> bool" where
  "stream_io_after_lock l es =
     list_all (\<lambda>e. \<not> is_stream_event e) (rev (dropWhile (\<lambda>e. e \<noteq> Release l) (rev es)))"

section \<open>A small instance of the collaborators\<close>

text \<open>
  A toy container library, used to instantiate the theorems below: a container is the
  list of its top-level entries, an entry is one byte, stored under a name derived from
  the byte, and the byte image of a container is the list of its entries. An image that
  contains the byte \<open>255\<close> is rejected as malformed.
\<close>

definition entry_name :: "8 word \<Rightarrow> string" where
  "entry_name b = ''entry'' @ replicate (unat b) (CHR ''i'')"

definition demo_entries :: "raw_bytes \<Rightarrow> (string \<times> raw_bytes) list" where
  "demo_entries c = map (\<lambda>b. (entry_name b, [b])) c"

definition demo_h5py :: "(raw_bytes, raw_bytes, 8 word, raw_bytes) h5py_lib" where
  "demo_h5py =
     \<lparr>candidate_name = ''tmpa1b2c3d4'',
      h5f_open = (\<lambda>name flags p.
         case fapl_file_image p of
           None \<Rightarrow> Inl OSError
         | Some img \<Rightarrow> if 255 \<in> set img then Inl OSError else Inr img),
      h5py_File = (\<lambda>fid kw. Inr fid),
      h5py_File_bio = (\<lambda>content mode kw. if mode = ''w'' then Inr [] else Inr content),
      h5_items = (\<lambda>h. map (\<lambda>b. (entry_name b, b)) h),
      h5_copy = (\<lambda>h v w expand_soft expand_external expand_refs. Inr (w @ [v])),
      h5_close_getvalue = (\<lambda>w. w)\<rparr>"







text \<open>A filesystem whose every file holds the given bytes; a stream is its path.\<close>

definition demo_fs :: "raw_bytes \<Rightarrow> string filesystem" where
  "demo_fs content =
     \<lparr>fs_open = (\<lambda>path kw. Inr path),
      fs_read = (\<lambda>f. Inr content),
      fs_write = (\<lambda>f b. Inr ()),
      fs_close = (\<lambda>f. Inr ()),
      fs_exists = (\<lambda>path. Inr True),
      fs_invalidate_cache = (\<lambda>path. Inr ())\<rparr>"

text \<open>
  A path resolver on the local filesystem, with the outcome of the load-path
  resolution given. Only a filesystem constructed with a \<^verbatim>\<open>token\<close> shows the content.
\<close>

definition demo_core :: "raw_bytes \<Rightarrow> error + string \<Rightarrow> string kedro_core" where
  "demo_core content load_path =
     \<lparr>get_protocol_and_path = (\<lambda>filepath version. Inr (''file'', filepath)),
      get_filepath_str = (\<lambda>path protocol. path),
      get_load_path = (\<lambda>ds. load_path),
      get_save_path = (\<lambda>ds. Inr (ds_filepath ds)),
      fsspec_filesystem = (\<lambda>protocol storage_options.
         Inr (demo_fs (case map_of storage_options ''token'' of
                         None \<Rightarrow> []
                       | Some _ \<Rightarrow> content)))\<rparr>"

definition demo_ds :: "raw_bytes \<Rightarrow> string H5pyDataSet" where
  "demo_ds content =
     \<lparr>ds_protocol = ''file'',
      ds_fs = demo_fs content,
      ds_filepath = ''test.h5'',
      ds_version = None,
      ds_load_args = [],
      ds_save_args = [],
      ds_fs_open_args_load = PDict [],
      ds_fs_open_args_save = [(''mode'', PStr ''wb'')]\<rparr>"

text \<open>
  A toy charting namespace with three of the attributes of \<^verbatim>\<open>plotly.express\<close>: the chart
  constructor \<^verbatim>\<open>bar\<close>, the submodule \<^verbatim>\<open>colors\<close> (not callable) and the class
  \<^verbatim>\<open>Constant\<close> (callable, but what it returns is no figure). A figure is its layout;
  applying a template brings the template's own title.
\<close>

definition demo_px :: "string \<Rightarrow> (pydict, string \<rightharpoonup> pyval) px_attr option" where
  "demo_px name =
     (if name = ''bar'' then Some (Callable (\<lambda>df kw. Inr (Figure Map.empty)))
      else if name = ''colors'' then Some NotCallable
      else if name = ''Constant'' then Some (Callable (\<lambda>df kw. Inr OtherObject))
      else None)"

definition demo_update_layout ::
  "(string \<rightharpoonup> pyval) \<Rightarrow> pyval option \<Rightarrow> pydict \<Rightarrow> error + (string \<rightharpoonup> pyval)" where
  "demo_update_layout fig dict1 kwargs =
     (case dict1 of
        None \<Rightarrow>
          Inr (case map_of kwargs ''template'' of
                 None \<Rightarrow> fig ++ map_of kwargs
               | Some _ \<Rightarrow> (fig ++ map_of kwargs)(''title'' \<mapsto> PStr ''theme title''))
      | Some (PDict d) \<Rightarrow> Inr (fig ++ map_of d ++ map_of kwargs)
      | Some _ \<Rightarrow> Inl ValueError)"

definition demo_plotly :: "(pydict, string \<rightharpoonup> pyval) plotly_lib" where
  "demo_plotly = \<lparr>px = demo_px, update_layout = demo_update_layout\<rparr>"

definition demo_df :: pydict where
  "demo_df = [(''x'', PList [PStr ''a'', PStr ''b'']), (''y'', PList [PInt 1, PInt 2])]"

text \<open>A toy parent class: its state is its description and its credentials.\<close>

definition demo_json :: "(pydict \<times> pydict option, string \<rightharpoonup> pyval) json_dataset" where
  "demo_json =
     \<lparr>JSONDataSet_init = (\<lambda>filepath load_args save_args version credentials fs_args.
         Inr ([(''filepath'', PPath filepath)], credentials)),
      JSONDataSet_describe = (\<lambda>j. fst j),
      JSONDataSet_save = (\<lambda>j fig. call JsonSave (Inr ()))\<rparr>"

section \<open>The effect combinators\<close>

lemma io_bind_Inl [simp]: "io_bind (Inl e, t) f = (Inl e, t)"
  by (simp add: io_bind_def)

lemma io_bind_Inr [simp]: "io_bind (Inr x, t) f = (fst (f x), t @ snd (f x))"
  by (simp add: io_bind_def split: prod.splits)

lemma io_bind_lift_Inl [simp]: "io_bind (io_lift (Inl e)) f = (Inl e, [])"
  by (simp add: io_lift_def)

lemma io_bind_lift_Inr [simp]: "io_bind (io_lift (Inr x)) f = f x"
  by (simp add: io_lift_def)

lemma io_bind_call_Inl [simp]: "io_bind (call ev (Inl e)) f = (Inl e, [ev])"
  by (simp add: call_def)

lemma io_bind_call_Inr [simp]: "io_bind (call ev (Inr x)) f = (fst (f x), ev # snd (f x))"
  by (simp add: call_def)

lemma fst_io_bind:
  "fst (io_bind m f) = (case fst m of Inl e \<Rightarrow> Inl e | Inr x \<Rightarrow> fst (f x))"
  by (cases m) (auto simp: io_bind_def split: sum.splits prod.splits)

lemma snd_io_bind:
  "snd (io_bind m f) = (case fst m of Inl e \<Rightarrow> snd m | Inr x \<Rightarrow> snd m @ snd (f x))"
  by (cases m) (auto simp: io_bind_def split: sum.splits prod.splits)

lemma merge_kwargs_empty_Inr: "merge_kwargs ps [] d = Inr kw \<Longrightarrow> kw = d"
  by (simp add: merge_kwargs_def keys_def split: if_splits)

section \<open>Decoding a byte buffer\<close>









section \<open>\<^verbatim>\<open>_exists\<close>\<close>

text \<open>
  \<^bold>\<open>C7.\<close> When the resolution of the load path raises a \<^verbatim>\<open>DataSetError\<close> (as it does when
  no version has been saved yet), \<^verbatim>\<open>_exists\<close> returns \<open>False\<close> and does not raise. This
  is the only error it turns into a result: any other error of the path resolution, and
  every error of the filesystem's own \<^verbatim>\<open>exists\<close> call, is raised unchanged.
\<close>

theorem exists_downgrades_only_path_resolution:
  "(\<forall>e. get_load_path core ds = Inl e \<and> isinstance_DataSetError e \<longrightarrow>
        exists core ds = (Inr False, [GetLoadPath]))
   \<and> (\<forall>e. get_load_path core ds = Inl e \<and> \<not> isinstance_DataSetError e \<longrightarrow>
        exists core ds = (Inl e, [GetLoadPath]))
   \<and> (\<forall>p. get_load_path core ds = Inr p \<longrightarrow>
        exists core ds =
          (fs_exists (ds_fs ds) (get_filepath_str core p (ds_protocol ds)),
           [GetLoadPath, FsExists (get_filepath_str core p (ds_protocol ds))]))"
  by (simp add: exists_def call_def Let_def)

theorem exists_downgrades_only_path_resolution_witness:
  "exists (demo_core [] (Inl VersionNotFoundError)) (demo_ds []) = (Inr False, [GetLoadPath])
   \<and> exists (demo_core [] (Inl OSError)) (demo_ds []) = (Inl OSError, [GetLoadPath])
   \<and> exists (demo_core [] (Inr ''test.h5'')) (demo_ds []) =
       (Inr True, [GetLoadPath, FsExists ''test.h5''])"
  using exists_downgrades_only_path_resolution
          [of "demo_core [] (Inl VersionNotFoundError)" "demo_ds []"]
    exists_downgrades_only_path_resolution [of "demo_core [] (Inl OSError)" "demo_ds []"]
    exists_downgrades_only_path_resolution [of "demo_core [] (Inr ''test.h5'')" "demo_ds []"]
  by (simp add: demo_core_def demo_ds_def demo_fs_def)

section \<open>The lock around the library calls\<close>

lemma h5py_from_binary_events:
  "list_all is_h5_event (snd (h5py_from_binary lib binary load_args))"
  by (simp add: h5py_from_binary_def Let_def snd_io_bind call_def io_lift_def
      split: sum.splits)

lemma copy_items_events:
  "list_all is_h5_event (snd (copy_items lib h5f items biof))"
  by (induction items arbitrary: biof)
     (auto simp: io_return_def snd_io_bind call_def split: sum.splits)

lemma h5py_to_binary_events:
  "list_all is_h5_event (snd (h5py_to_binary lib h5f save_args))"
  by (auto simp: h5py_to_binary_def snd_io_bind call_def io_lift_def copy_items_events
      split: sum.splits prod.splits)
   (metis copy_items_events snd_conv)+

lemma with_fs_open_events:
  assumes "\<And>f. list_all is_stream_event (snd (body f))"
  shows "list_all is_stream_event (snd (with_fs_open fs path open_args body))"
  using assms
  apply (auto simp: with_fs_open_def snd_io_bind call_def io_lift_def
      split: sum.splits prod.splits)
  apply (metis snd_conv)+
  done

lemma lock_discipline_free_append:
  "list_all (\<lambda>e. \<not> is_h5_event e \<and> \<not> is_lock_event e) t \<Longrightarrow>
   lock_discipline l False (t @ r) = lock_discipline l False r"
proof (induction t)
  case Nil
  then show ?case by simp
next
  case (Cons e t)
  then show ?case by (cases e) simp_all
qed

lemma lock_discipline_held_append:
  "list_all is_h5_event t \<Longrightarrow>
   lock_discipline l True (t @ r) = lock_discipline l True r"
proof (induction t)
  case Nil
  then show ?case by simp
next
  case (Cons e t)
  then show ?case by (cases e) simp_all
qed

lemma stream_not_h5: "is_stream_event e \<Longrightarrow> \<not> is_h5_event e \<and> \<not> is_lock_event e"
  by (cases e) simp_all

lemma h5_not_stream: "is_h5_event e \<Longrightarrow> \<not> is_stream_event e \<and> \<not> is_lock_event e"
  by (cases e) simp_all

lemma list_all_weaken: "list_all P xs \<Longrightarrow> (\<And>x. P x \<Longrightarrow> Q x) \<Longrightarrow> list_all Q xs"
  by (induction xs) auto

lemma load_trace:
  "\<exists>t1 t2. list_all is_stream_event t1 \<and> list_all is_h5_event t2 \<and>
     (snd (load core lib ds) = GetLoadPath # t1 \<and> (\<forall>h. fst (load core lib ds) \<noteq> Inr h)
      \<or> snd (load core lib ds) =
           GetLoadPath # t1 @ Acquire H5pyDataSet_lock # t2 @ [Release H5pyDataSet_lock])"
proof (cases "get_load_path core ds")
  case (Inl e)
  then have "snd (load core lib ds) = GetLoadPath # []" "fst (load core lib ds) = Inl e"
    by (simp_all add: load_def)
  then show ?thesis by (intro exI [of _ "[]"]) auto
next
  case (Inr p)
  obtain r t1 where rd: "with_fs_open (ds_fs ds) (get_filepath_str core p (ds_protocol ds))
      (ds_fs_open_args_load ds) (\<lambda>fs_file. call FsRead (fs_read (ds_fs ds) fs_file)) = (r, t1)"
    by (cases "with_fs_open (ds_fs ds) (get_filepath_str core p (ds_protocol ds))
      (ds_fs_open_args_load ds) (\<lambda>fs_file. call FsRead (fs_read (ds_fs ds) fs_file))") blast
  have "list_all is_stream_event (snd (with_fs_open (ds_fs ds)
      (get_filepath_str core p (ds_protocol ds))
      (ds_fs_open_args_load ds) (\<lambda>fs_file. call FsRead (fs_read (ds_fs ds) fs_file))))"
    by (rule with_fs_open_events) (simp add: call_def)
  with rd have ev: "list_all is_stream_event t1" by simp
  show ?thesis
  proof (cases r)
    case (Inl e)
    have "snd (load core lib ds) = GetLoadPath # t1" "fst (load core lib ds) = Inl e"
      using Inr Inl rd by (simp_all add: load_def Let_def)
    with ev show ?thesis by (intro exI [of _ t1] exI [of _ "[]"]) auto
  next
    case (Inr b)
    obtain r2 t2 where dec: "h5py_from_binary lib b (ds_load_args ds) = (r2, t2)"
      by (cases "h5py_from_binary lib b (ds_load_args ds)") blast
    with h5py_from_binary_events [of lib b "ds_load_args ds"]
    have ev2: "list_all is_h5_event t2" by simp
    have "snd (load core lib ds) = GetLoadPath # t1 @ Acquire H5pyDataSet_lock #
            t2 @ [Release H5pyDataSet_lock]"
      using \<open>get_load_path core ds = Inr p\<close> Inr rd dec
      by (simp add: load_def Let_def with_lock_def)
    with ev ev2 show ?thesis
      by (intro exI [of _ t1] exI [of _ t2]) auto
  qed
qed


lemma save_trace:
  "\<exists>t2 t3. list_all is_h5_event t2 \<and>
     list_all (\<lambda>e. \<not> is_h5_event e \<and> \<not> is_lock_event e) t3 \<and>
     (snd (save core lib ds data) = [GetSavePath] \<and> fst (save core lib ds data) \<noteq> Inr ()
      \<or> snd (save core lib ds data) =
           GetSavePath # Acquire H5pyDataSet_lock # t2 @ Release H5pyDataSet_lock # t3)"
proof (cases "get_save_path core ds")
  case (Inl e)
  then have "snd (save core lib ds data) = [GetSavePath]" "fst (save core lib ds data) = Inl e"
    by (simp_all add: save_def)
  then show ?thesis by (intro exI [of _ "[]"]) auto
next
  case (Inr p)
  obtain r2 t2 where enc: "h5py_to_binary lib data (ds_save_args ds) = (r2, t2)"
    by (cases "h5py_to_binary lib data (ds_save_args ds)") blast
  with h5py_to_binary_events [of lib data "ds_save_args ds"]
  have ev2: "list_all is_h5_event t2" by simp
  show ?thesis
  proof (cases r2)
    case (Inl e)
    have "snd (save core lib ds data) =
            GetSavePath # Acquire H5pyDataSet_lock # t2 @ Release H5pyDataSet_lock # []"
      using Inr Inl enc by (simp add: save_def Let_def with_lock_def)
    with ev2 show ?thesis by (intro exI [of _ t2] exI [of _ "[]"]) auto
  next
    case (Inr b)
    obtain r t1 where wr: "with_fs_open (ds_fs ds) (get_filepath_str core p (ds_protocol ds))
        (PDict (ds_fs_open_args_save ds))
        (\<lambda>fs_file. call (FsWrite b) (fs_write (ds_fs ds) fs_file b)) = (r, t1)"
      by (cases "with_fs_open (ds_fs ds) (get_filepath_str core p (ds_protocol ds))
        (PDict (ds_fs_open_args_save ds))
        (\<lambda>fs_file. call (FsWrite b) (fs_write (ds_fs ds) fs_file b))") blast
    have "list_all is_stream_event (snd (with_fs_open (ds_fs ds)
        (get_filepath_str core p (ds_protocol ds)) (PDict (ds_fs_open_args_save ds))
        (\<lambda>fs_file. call (FsWrite b) (fs_write (ds_fs ds) fs_file b))))"
      by (rule with_fs_open_events) (simp add: call_def)
    with wr have "list_all is_stream_event t1" by simp
    then have ev1: "list_all (\<lambda>e. \<not> is_h5_event e \<and> \<not> is_lock_event e) t1"
      by (rule list_all_weaken) (rule stream_not_h5)
    show ?thesis
    proof (cases r)
      case (Inl e)
      have "snd (save core lib ds data) =
              GetSavePath # Acquire H5pyDataSet_lock # t2 @ Release H5pyDataSet_lock # t1"
        using \<open>get_save_path core ds = Inr p\<close> \<open>r2 = Inr b\<close> Inl enc wr
        by (simp add: save_def Let_def with_lock_def)
      with ev1 ev2 show ?thesis by (intro exI [of _ t2] exI [of _ t1]) auto
    next
      case (Inr u)
      have "snd (save core lib ds data) =
              GetSavePath # Acquire H5pyDataSet_lock # t2 @ Release H5pyDataSet_lock #
                (t1 @ [FsInvalidateCache (get_filepath_str core (ds_filepath ds) (ds_protocol ds))])"
        using \<open>get_save_path core ds = Inr p\<close> \<open>r2 = Inr b\<close> Inr enc wr
        by (simp add: save_def Let_def with_lock_def invalidate_cache_def call_def)
      with ev1 ev2 show ?thesis
        by (intro exI [of _ t2]
            exI [of _ "t1 @ [FsInvalidateCache (get_filepath_str core (ds_filepath ds) (ds_protocol ds))]"])
          auto
    qed
  qed
qed

lemma dropWhile_no_lock_nil:
  "list_all (\<lambda>e. \<not> is_lock_event e) t \<Longrightarrow> is_lock_event x \<Longrightarrow>
   dropWhile (\<lambda>e. e \<noteq> x) t = []"
  by (auto simp: list_all_iff)

lemma dropWhile_no_lock_app:
  "list_all (\<lambda>e. \<not> is_lock_event e) t \<Longrightarrow> is_lock_event x \<Longrightarrow>
   dropWhile (\<lambda>e. e \<noteq> x) (t @ x # r) = x # r"
  by (induction t) auto

text \<open>
  \<^bold>\<open>C3.\<close> \<^verbatim>\<open>_load\<close> and \<^verbatim>\<open>_save\<close> use one and the same lock, the class attribute
  \<^verbatim>\<open>H5pyDataSet._lock\<close>. Along every run of either, successful or not, the lock is held
  exactly during the calls into the container library and is free at the end; no
  byte-stream I/O on the filesystem happens once \<^verbatim>\<open>_load\<close> has acquired the lock, and none
  happens in \<^verbatim>\<open>_save\<close> until the lock has been released. A run that returns has acquired
  the lock.
\<close>

theorem lock_held_only_around_library_call:
  "lock_discipline H5pyDataSet_lock False (snd (load core lib ds))
   \<and> stream_io_before_lock H5pyDataSet_lock (snd (load core lib ds))
   \<and> (\<forall>h. fst (load core lib ds) = Inr h \<longrightarrow>
          Acquire H5pyDataSet_lock \<in> set (snd (load core lib ds)))
   \<and> lock_discipline H5pyDataSet_lock False (snd (save core lib ds data))
   \<and> stream_io_after_lock H5pyDataSet_lock (snd (save core lib ds data))
   \<and> (fst (save core lib ds data) = Inr () \<longrightarrow>
          Acquire H5pyDataSet_lock \<in> set (snd (save core lib ds data)))"
proof -
  obtain t1 t2 where l: "list_all is_stream_event t1" "list_all is_h5_event t2"
     "snd (load core lib ds) = GetLoadPath # t1 \<and> (\<forall>h. fst (load core lib ds) \<noteq> Inr h)
      \<or> snd (load core lib ds) =
           GetLoadPath # t1 @ Acquire H5pyDataSet_lock # t2 @ [Release H5pyDataSet_lock]"
    using load_trace [of core lib ds] by blast
  have f1: "list_all (\<lambda>e. \<not> is_h5_event e \<and> \<not> is_lock_event e) t1"
    using l(1) by (rule list_all_weaken) (rule stream_not_h5)
  have n1: "list_all (\<lambda>e. \<not> is_lock_event e) t1"
    using l(1) by (rule list_all_weaken) (simp add: stream_not_h5)
  have s2: "list_all (\<lambda>e. \<not> is_stream_event e) t2"
    using l(2) by (rule list_all_weaken) (simp add: h5_not_stream)
  have A: "lock_discipline H5pyDataSet_lock False (snd (load core lib ds))"
    using l(3) lock_discipline_free_append [OF f1, of H5pyDataSet_lock "[]"]
      lock_discipline_free_append [OF f1, of H5pyDataSet_lock
        "Acquire H5pyDataSet_lock # t2 @ [Release H5pyDataSet_lock]"]
      lock_discipline_held_append [OF l(2), of H5pyDataSet_lock "[Release H5pyDataSet_lock]"]
    by auto
  have B: "stream_io_before_lock H5pyDataSet_lock (snd (load core lib ds))"
    using l(3)
  proof
    assume t: "snd (load core lib ds) = GetLoadPath # t1 \<and> (\<forall>h. fst (load core lib ds) \<noteq> Inr h)"
    have dw: "dropWhile (\<lambda>e. e \<noteq> Acquire H5pyDataSet_lock) t1 = []"
      using dropWhile_no_lock_nil [OF n1, of "Acquire H5pyDataSet_lock"] by simp
    show ?thesis using t by (simp add: stream_io_before_lock_def dw)
  next
    assume "snd (load core lib ds) =
           GetLoadPath # t1 @ Acquire H5pyDataSet_lock # t2 @ [Release H5pyDataSet_lock]"
    moreover have "dropWhile (\<lambda>e. e \<noteq> Acquire H5pyDataSet_lock)
        (t1 @ Acquire H5pyDataSet_lock # t2 @ [Release H5pyDataSet_lock])
        = Acquire H5pyDataSet_lock # t2 @ [Release H5pyDataSet_lock]"
      using dropWhile_no_lock_app [OF n1, of "Acquire H5pyDataSet_lock"
          "t2 @ [Release H5pyDataSet_lock]"] by simp
    ultimately show ?thesis using s2 by (simp add: stream_io_before_lock_def)
  qed
  have C: "\<forall>h. fst (load core lib ds) = Inr h \<longrightarrow>
          Acquire H5pyDataSet_lock \<in> set (snd (load core lib ds))"
    using l(3) by auto
  obtain u2 u3 where s: "list_all is_h5_event u2"
     "list_all (\<lambda>e. \<not> is_h5_event e \<and> \<not> is_lock_event e) u3"
     "snd (save core lib ds data) = [GetSavePath] \<and> fst (save core lib ds data) \<noteq> Inr ()
      \<or> snd (save core lib ds data) =
           GetSavePath # Acquire H5pyDataSet_lock # u2 @ Release H5pyDataSet_lock # u3"
    using save_trace [of core lib ds data] by blast
  have n3: "list_all (\<lambda>e. \<not> is_lock_event e) (rev u3)"
    using s(2) by (simp add: list_all_iff)
  have su2: "list_all (\<lambda>e. \<not> is_stream_event e) u2"
    using s(1) by (rule list_all_weaken) (simp add: h5_not_stream)
  have D: "lock_discipline H5pyDataSet_lock False (snd (save core lib ds data))"
    using s(3) lock_discipline_free_append [OF s(2), of H5pyDataSet_lock "[]"]
      lock_discipline_held_append [OF s(1), of H5pyDataSet_lock "Release H5pyDataSet_lock # u3"]
    by auto
  have E: "stream_io_after_lock H5pyDataSet_lock (snd (save core lib ds data))"
    using s(3)
  proof
    assume "snd (save core lib ds data) = [GetSavePath] \<and> fst (save core lib ds data) \<noteq> Inr ()"
    then show ?thesis by (simp add: stream_io_after_lock_def)
  next
    assume t: "snd (save core lib ds data) =
           GetSavePath # Acquire H5pyDataSet_lock # u2 @ Release H5pyDataSet_lock # u3"
    have "dropWhile (\<lambda>e. e \<noteq> Release H5pyDataSet_lock)
            (rev u3 @ Release H5pyDataSet_lock # rev u2 @ [Acquire H5pyDataSet_lock, GetSavePath])
          = Release H5pyDataSet_lock # rev u2 @ [Acquire H5pyDataSet_lock, GetSavePath]"
      using dropWhile_no_lock_app [OF n3, of "Release H5pyDataSet_lock"
          "rev u2 @ [Acquire H5pyDataSet_lock, GetSavePath]"] by simp
    with t su2 show ?thesis by (simp add: stream_io_after_lock_def)
  qed
  have F: "fst (save core lib ds data) = Inr () \<longrightarrow>
          Acquire H5pyDataSet_lock \<in> set (snd (save core lib ds data))"
    using s(3) by auto
  from A B C D E F show ?thesis by blast
qed

theorem lock_held_only_around_library_call_witness:
  "load (demo_core [4, 5] (Inr ''test.h5'')) demo_h5py (demo_ds [4, 5]) =
     (Inr [4, 5], [GetLoadPath, FsOpen ''test.h5'' [], FsRead, FsClose,
        Acquire H5pyDataSet_lock, H5fOpen [4, 5], H5File h5_file_args,
        Release H5pyDataSet_lock])
   \<and> lock_discipline H5pyDataSet_lock False
       (snd (load (demo_core [4, 5] (Inr ''test.h5'')) demo_h5py (demo_ds [4, 5])))
   \<and> Acquire H5pyDataSet_lock \<in>
       set (snd (load (demo_core [4, 5] (Inr ''test.h5'')) demo_h5py (demo_ds [4, 5])))
   \<and> save (demo_core [] (Inr ''test.h5'')) demo_h5py (demo_ds []) [4, 5] =
     (Inr (), [GetSavePath, Acquire H5pyDataSet_lock, H5Create [],
        H5Copy (entry_name 4) True True True, H5Copy (entry_name 5) True True True, H5Close,
        Release H5pyDataSet_lock, FsOpen ''test.h5'' [(''mode'', PStr ''wb'')],
        FsWrite [4, 5], FsClose, FsInvalidateCache ''test.h5''])
   \<and> Acquire H5pyDataSet_lock \<in>
       set (snd (save (demo_core [] (Inr ''test.h5'')) demo_h5py (demo_ds []) [4, 5]))"
proof -
  have l: "load (demo_core [4, 5] (Inr ''test.h5'')) demo_h5py (demo_ds [4, 5]) =
     (Inr [4, 5], [GetLoadPath, FsOpen ''test.h5'' [], FsRead, FsClose,
        Acquire H5pyDataSet_lock, H5fOpen [4, 5], H5File h5_file_args,
        Release H5pyDataSet_lock])"
    by (simp add: load_def demo_core_def demo_ds_def demo_fs_def demo_h5py_def with_fs_open_def
        as_mapping_def merge_kwargs_def keys_def call_def with_lock_def h5py_from_binary_def
        h5_file_args_def io_lift_def set_file_image_def set_fapl_core_def)
  have s: "save (demo_core [] (Inr ''test.h5'')) demo_h5py (demo_ds []) [4, 5] =
     (Inr (), [GetSavePath, Acquire H5pyDataSet_lock, H5Create [],
        H5Copy (entry_name 4) True True True, H5Copy (entry_name 5) True True True, H5Close,
        Release H5pyDataSet_lock, FsOpen ''test.h5'' [(''mode'', PStr ''wb'')],
        FsWrite [4, 5], FsClose, FsInvalidateCache ''test.h5''])"
    by (simp add: save_def demo_core_def demo_ds_def demo_fs_def demo_h5py_def with_fs_open_def
        as_mapping_def merge_kwargs_def keys_def call_def with_lock_def h5py_to_binary_def
        io_lift_def io_return_def invalidate_cache_def)
  from l s lock_held_only_around_library_call
         [of "demo_core [4, 5] (Inr ''test.h5'')" demo_h5py "demo_ds [4, 5]" "[4, 5]"]
    lock_held_only_around_library_call
         [of "demo_core [] (Inr ''test.h5'')" demo_h5py "demo_ds []" "[4, 5]"]
  show ?thesis by simp
qed

section \<open>Encoding a handle, and the round trip\<close>

lemma copy_items_Inr:
  assumes copy: "\<And>v w w'. h5_copy lib h5f v w True True True = Inr w' \<Longrightarrow>
                   entries w' = entries w @ [entry_of v]"
  shows "copy_items lib h5f items w = (Inr w', t) \<Longrightarrow>
         entries w' = entries w @ map (\<lambda>(k, v). entry_of v) items \<and>
         t = map (\<lambda>(k, v). H5Copy k True True True) items"
proof (induction items arbitrary: w t)
  case Nil
  then show ?case by (simp add: io_return_def)
next
  case (Cons kv items)
  obtain k v where kv: "kv = (k, v)" by (cases kv)
  show ?case
  proof (cases "h5_copy lib h5f v w True True True")
    case (Inl e)
    with Cons.prems kv show ?thesis by simp
  next
    case (Inr w1)
    obtain r t1 where rest: "copy_items lib h5f items w1 = (r, t1)"
      by (cases "copy_items lib h5f items w1") blast
    with Cons.prems kv Inr have r: "r = Inr w'" and t: "t = H5Copy k True True True # t1"
      by simp_all
    from Cons.IH [of w1 t1] rest r
    have "entries w' = entries w1 @ map (\<lambda>(k, v). entry_of v) items"
      and "t1 = map (\<lambda>(k, v). H5Copy k True True True) items" by simp_all
    with copy [OF Inr] t kv show ?thesis by simp
  qed
qed

lemma h5py_to_binary_Inr:
  assumes "h5py_to_binary lib h5f save_args = (Inr b, t)"
  shows "\<exists>w0 w t'. merge_kwargs [''name'', ''mode''] [] save_args = Inr save_args
           \<and> h5py_File_bio lib [] ''w'' save_args = Inr w0
           \<and> copy_items lib h5f (h5_items lib h5f) w0 = (Inr w, t')
           \<and> b = h5_close_getvalue lib w
           \<and> t = H5Create save_args # t' @ [H5Close]"
proof (cases "merge_kwargs [''name'', ''mode''] [] save_args")
  case (Inl e)
  with assms show ?thesis by (simp add: h5py_to_binary_def)
next
  case (Inr kw)
  then have kw: "kw = save_args" by (rule merge_kwargs_empty_Inr)
  show ?thesis
  proof (cases "h5py_File_bio lib [] ''w'' save_args")
    case (Inl e)
    with assms Inr kw show ?thesis by (simp add: h5py_to_binary_def)
  next
    case w0: (Inr w0)
    obtain r t' where c: "copy_items lib h5f (h5_items lib h5f) w0 = (r, t')"
      by (cases "copy_items lib h5f (h5_items lib h5f) w0") blast
    show ?thesis
    proof (cases r)
      case (Inl e)
      with assms Inr kw w0 c show ?thesis by (simp add: h5py_to_binary_def)
    next
      case r: (Inr w)
      with assms Inr kw w0 c show ?thesis by (simp add: h5py_to_binary_def)
    qed
  qed
qed

lemma copy_items_succeeds:
  assumes "\<And>v w. \<exists>w'. h5_copy lib h5f v w True True True = Inr w'"
  shows "\<exists>w' t. copy_items lib h5f items w = (Inr w', t)"
proof (induction items arbitrary: w)
  case Nil
  then show ?case by (simp add: io_return_def)
next
  case (Cons kv items)
  obtain k v where kv: "kv = (k, v)" by (cases kv)
  from assms obtain w1 where w1: "h5_copy lib h5f v w True True True = Inr w1" by blast
  from Cons.IH [of w1] obtain w' t where "copy_items lib h5f items w1 = (Inr w', t)" by blast
  with kv w1 show ?case by simp
qed

lemma h5py_to_binary_succeeds:
  assumes "\<And>v w. \<exists>w'. h5_copy lib h5f v w True True True = Inr w'"
    and "merge_kwargs [''name'', ''mode''] [] save_args = Inr kw"
    and "h5py_File_bio lib [] ''w'' kw = Inr w0"
  shows "\<exists>b t. h5py_to_binary lib h5f save_args = (Inr b, t)"
proof -
  from copy_items_succeeds [OF assms(1), of "h5_items lib h5f" w0]
  obtain w' t where "copy_items lib h5f (h5_items lib h5f) w0 = (Inr w', t)" by blast
  with assms(2,3) show ?thesis by (simp add: h5py_to_binary_def)
qed

text \<open>
  \<^bold>\<open>C6.\<close> \<^verbatim>\<open>__h5py_to_binary\<close> opens a new container on an empty memory buffer in mode
  \<^verbatim>\<open>w\<close> and copies every top-level item of the handle into it, in order, each with
  \<^verbatim>\<open>expand_soft\<close>, \<^verbatim>\<open>expand_external\<close> and \<^verbatim>\<open>expand_refs\<close> set, then closes it and returns
  the buffer. For a library whose new container is empty and whose copy with the three
  flags set appends the expanded (self-contained) copy \<open>expanded v\<close> of the object, the
  bytes returned are those of a container holding exactly the expanded copies of all
  top-level entries. When no library call fails, the encoding returns.
\<close>

theorem encode_copies_every_entry_expanded:
  assumes fresh: "\<And>kw w. h5py_File_bio lib [] ''w'' kw = Inr w \<Longrightarrow> entries w = []"
    and copy: "\<And>v w w'. h5_copy lib h5f v w True True True = Inr w' \<Longrightarrow>
                 entries w' = entries w @ [expanded v]"
  shows "(\<forall>b t. h5py_to_binary lib h5f save_args = (Inr b, t) \<longrightarrow>
            (\<exists>w. b = h5_close_getvalue lib w
               \<and> entries w = map (\<lambda>(k, v). expanded v) (h5_items lib h5f)
               \<and> t = H5Create save_args #
                     map (\<lambda>(k, v). H5Copy k True True True) (h5_items lib h5f) @ [H5Close]))
       \<and> ((\<forall>v w. \<exists>w'. h5_copy lib h5f v w True True True = Inr w')
            \<and> (\<exists>kw w0. merge_kwargs [''name'', ''mode''] [] save_args = Inr kw
                  \<and> h5py_File_bio lib [] ''w'' kw = Inr w0)
          \<longrightarrow> (\<exists>b t. h5py_to_binary lib h5f save_args = (Inr b, t)))"
proof (intro conjI allI impI)
  fix b t
  assume "h5py_to_binary lib h5f save_args = (Inr b, t)"
  from h5py_to_binary_Inr [OF this] obtain w0 w t' where
    w0: "h5py_File_bio lib [] ''w'' save_args = Inr w0"
    and c: "copy_items lib h5f (h5_items lib h5f) w0 = (Inr w, t')"
    and b: "b = h5_close_getvalue lib w" and t: "t = H5Create save_args # t' @ [H5Close]"
    by blast
  from copy_items_Inr [of lib h5f entries expanded, OF copy c] fresh [OF w0]
  have "entries w = map (\<lambda>(k, v). expanded v) (h5_items lib h5f)"
    and "t' = map (\<lambda>(k, v). H5Copy k True True True) (h5_items lib h5f)" by simp_all
  with b t show "\<exists>w. b = h5_close_getvalue lib w
               \<and> entries w = map (\<lambda>(k, v). expanded v) (h5_items lib h5f)
               \<and> t = H5Create save_args #
                     map (\<lambda>(k, v). H5Copy k True True True) (h5_items lib h5f) @ [H5Close]"
    by blast
next
  assume "(\<forall>v w. \<exists>w'. h5_copy lib h5f v w True True True = Inr w')
            \<and> (\<exists>kw w0. merge_kwargs [''name'', ''mode''] [] save_args = Inr kw
                  \<and> h5py_File_bio lib [] ''w'' kw = Inr w0)"
  then show "\<exists>b t. h5py_to_binary lib h5f save_args = (Inr b, t)"
    using h5py_to_binary_succeeds [of lib h5f save_args] by blast
qed

theorem encode_copies_every_entry_expanded_witness:
  "h5py_to_binary demo_h5py [4, 5] [] =
     (Inr [4, 5], [H5Create [], H5Copy (entry_name 4) True True True,
                   H5Copy (entry_name 5) True True True, H5Close])
   \<and> (\<exists>w. [4, 5] = h5_close_getvalue demo_h5py w
          \<and> demo_entries w = [(entry_name 4, [4]), (entry_name 5, [5])])"
proof -
  have run: "h5py_to_binary demo_h5py [4, 5] [] =
     (Inr [4, 5], [H5Create [], H5Copy (entry_name 4) True True True,
                   H5Copy (entry_name 5) True True True, H5Close])"
    by (simp add: h5py_to_binary_def demo_h5py_def merge_kwargs_def keys_def call_def
        io_return_def)
  have "(\<forall>b t. h5py_to_binary demo_h5py [4, 5] [] = (Inr b, t) \<longrightarrow>
            (\<exists>w. b = h5_close_getvalue demo_h5py w
               \<and> demo_entries w =
                   map (\<lambda>(k, v). (entry_name v, [v])) (h5_items demo_h5py [4, 5])
               \<and> t = H5Create [] #
                     map (\<lambda>(k, v). H5Copy k True True True) (h5_items demo_h5py [4, 5])
                     @ [H5Close]))
       \<and> ((\<forall>v w. \<exists>w'. h5_copy demo_h5py [4, 5] v w True True True = Inr w')
            \<and> (\<exists>kw w0. merge_kwargs [''name'', ''mode''] [] [] = Inr kw
                  \<and> h5py_File_bio demo_h5py [] ''w'' kw = Inr w0)
          \<longrightarrow> (\<exists>b t. h5py_to_binary demo_h5py [4, 5] [] = (Inr b, t)))"
    by (rule encode_copies_every_entry_expanded
          [where entries = demo_entries and expanded = "\<lambda>v. (entry_name v, [v])"])
       (auto simp: demo_h5py_def demo_entries_def)
  with run have "\<exists>w. [4, 5] = h5_close_getvalue demo_h5py w
          \<and> demo_entries w = map (\<lambda>(k, v). (entry_name v, [v])) (h5_items demo_h5py [4, 5])"
    by blast
  with run show ?thesis by (simp add: demo_h5py_def)
qed







section \<open>Construction, \<^verbatim>\<open>_describe\<close> and the mode of the save stream\<close>

lemma dict_get_delete: "k \<noteq> k' \<Longrightarrow> dict_get (AList.delete k d) k' dflt = dict_get d k' dflt"
  by (simp add: dict_get_def delete_conv')

lemma map_of_dict_setdefault:
  "map_of (dict_setdefault d k v) k = Some (case map_of d k of None \<Rightarrow> v | Some m \<Rightarrow> m)"
  by (simp add: dict_setdefault_def update_conv' split: option.splits)

lemma init_Inr:
  assumes "init core filepath load_args save_args version credentials fs_args = Inr ds"
  shows "\<exists>protocol path d.
           get_protocol_and_path core filepath version = Inr (protocol, path)
         \<and> ds_protocol ds = protocol \<and> ds_filepath ds = path \<and> ds_version ds = version
         \<and> ds_load_args ds = (case load_args of None \<Rightarrow> DEFAULT_LOAD_ARGS
                                | Some a \<Rightarrow> dict_update DEFAULT_LOAD_ARGS a)
         \<and> ds_save_args ds = (case save_args of None \<Rightarrow> DEFAULT_SAVE_ARGS
                                | Some a \<Rightarrow> dict_update DEFAULT_SAVE_ARGS a)
         \<and> dict_get (or_empty fs_args) ''open_args_save'' (PDict []) = PDict d
         \<and> ds_fs_open_args_save ds = dict_setdefault d ''mode'' (PStr ''wb'')"
proof -
  have pop: "fst (dict_pop (snd (dict_pop (or_empty fs_args) ''open_args_load'' (PDict [])))
                 ''open_args_save'' (PDict []))
             = dict_get (or_empty fs_args) ''open_args_save'' (PDict [])"
    by (simp add: dict_pop_def dict_get_delete)
  from assms show ?thesis
    unfolding init_def Let_def pop [symmetric]
    by (auto simp: val_setdefault_def split: prod.splits sum.splits pyval.splits)
qed

lemma with_fs_open_trace:
  "snd (with_fs_open fs path (PDict d) body) = []
     \<and> (\<forall>x. fst (with_fs_open fs path (PDict d) body) \<noteq> Inr x)
   \<or> snd (with_fs_open fs path (PDict d) body) = [FsOpen path d]
     \<and> (\<forall>x. fst (with_fs_open fs path (PDict d) body) \<noteq> Inr x)
   \<or> (\<exists>f. snd (with_fs_open fs path (PDict d) body) = FsOpen path d # snd (body f) @ [FsClose])"
proof (cases "merge_kwargs [''path''] [] d")
  case (Inl e)
  then show ?thesis by (simp add: with_fs_open_def as_mapping_def)
next
  case (Inr kw)
  then have kw: "kw = d" by (rule merge_kwargs_empty_Inr)
  show ?thesis
  proof (cases "fs_open fs path d")
    case (Inl e)
    with Inr kw show ?thesis by (simp add: with_fs_open_def as_mapping_def)
  next
    case f: (Inr f)
    with Inr kw have "snd (with_fs_open fs path (PDict d) body)
        = FsOpen path d # snd (body f) @ [FsClose]"
      by (simp add: with_fs_open_def as_mapping_def split: prod.splits sum.splits)
    then show ?thesis by blast
  qed
qed

lemma save_FsOpen:
  "(\<forall>path kw. FsOpen path kw \<in> set (snd (save core lib ds data)) \<longrightarrow>
       kw = ds_fs_open_args_save ds)
   \<and> (fst (save core lib ds data) = Inr () \<longrightarrow>
        (\<exists>path. FsOpen path (ds_fs_open_args_save ds) \<in> set (snd (save core lib ds data))))"
proof (cases "get_save_path core ds")
  case (Inl e)
  then have "snd (save core lib ds data) = [GetSavePath]" "fst (save core lib ds data) = Inl e"
    by (simp_all add: save_def)
  then show ?thesis by simp
next
  case (Inr p)
  obtain r2 t2 where enc: "h5py_to_binary lib data (ds_save_args ds) = (r2, t2)"
    by (cases "h5py_to_binary lib data (ds_save_args ds)") blast
  with h5py_to_binary_events [of lib data "ds_save_args ds"]
  have "list_all is_h5_event t2" by simp
  then have no2: "\<And>path kw. FsOpen path kw \<notin> set t2"
    by (auto simp: list_all_iff)
  show ?thesis
  proof (cases r2)
    case (Inl e)
    have "snd (save core lib ds data) =
            GetSavePath # Acquire H5pyDataSet_lock # t2 @ [Release H5pyDataSet_lock]"
       "fst (save core lib ds data) = Inl e"
      using Inr Inl enc by (simp_all add: save_def Let_def with_lock_def)
    with no2 show ?thesis by simp
  next
    case (Inr b)
    let ?path = "get_filepath_str core p (ds_protocol ds)"
    let ?body = "\<lambda>fs_file. call (FsWrite b) (fs_write (ds_fs ds) fs_file b)"
    let ?w = "with_fs_open (ds_fs ds) ?path (PDict (ds_fs_open_args_save ds)) ?body"
    have s: "snd (save core lib ds data) =
              GetSavePath # Acquire H5pyDataSet_lock # t2 @ Release H5pyDataSet_lock #
                snd ?w @ (case fst ?w of Inl e \<Rightarrow> [] | Inr u \<Rightarrow>
                  [FsInvalidateCache (get_filepath_str core (ds_filepath ds) (ds_protocol ds))])"
      using \<open>get_save_path core ds = Inr p\<close> Inr enc
      by (cases ?w) (simp add: save_def Let_def with_lock_def invalidate_cache_def call_def
          split: sum.splits)
    have f: "fst (save core lib ds data) = Inr () \<Longrightarrow> \<exists>u. fst ?w = Inr u"
      using \<open>get_save_path core ds = Inr p\<close> Inr enc
      by (cases ?w) (auto simp: save_def Let_def with_lock_def fst_io_bind split: sum.splits)
    from with_fs_open_trace [of "ds_fs ds" ?path "ds_fs_open_args_save ds" ?body]
    show ?thesis
    proof (elim disjE conjE exE)
      assume "snd ?w = []" "\<forall>x. fst ?w \<noteq> Inr x"
      with s no2 f show ?thesis by (auto split: sum.splits)
    next
      assume "snd ?w = [FsOpen ?path (ds_fs_open_args_save ds)]" "\<forall>x. fst ?w \<noteq> Inr x"
      with s no2 f show ?thesis by (auto split: sum.splits)
    next
      fix fl
      assume "snd ?w = FsOpen ?path (ds_fs_open_args_save ds) # snd (?body fl) @ [FsClose]"
      with s no2 show ?thesis by (auto simp: call_def split: sum.splits)
    qed
  qed
qed

text \<open>
  \<^bold>\<open>C10.\<close> For a constructed dataset, the \<^verbatim>\<open>open_args_save\<close> entry of \<^verbatim>\<open>fs_args\<close> (an empty
  dictionary when there is none) is a dictionary \<open>d\<close>, and the \<^verbatim>\<open>mode\<close> with which
  \<^verbatim>\<open>_save\<close> opens the filesystem stream is \<^verbatim>\<open>wb\<close> when \<open>d\<close> has no \<^verbatim>\<open>mode\<close> and the
  caller's own value otherwise: every \<^verbatim>\<open>open\<close> call of \<^verbatim>\<open>_save\<close> gets exactly the stored
  arguments, and a \<^verbatim>\<open>_save\<close> that returns has made such a call.
\<close>

theorem save_opens_stream_in_mode_wb:
  assumes "init core filepath load_args save_args version credentials fs_args = Inr ds"
  shows "\<exists>d. dict_get (or_empty fs_args) ''open_args_save'' (PDict []) = PDict d
           \<and> map_of (ds_fs_open_args_save ds) ''mode'' =
               Some (case map_of d ''mode'' of None \<Rightarrow> PStr ''wb'' | Some m \<Rightarrow> m)
           \<and> (\<forall>path kw. FsOpen path kw \<in> set (snd (save core' lib ds data)) \<longrightarrow>
                 kw = ds_fs_open_args_save ds)
           \<and> (fst (save core' lib ds data) = Inr () \<longrightarrow>
                (\<exists>path. FsOpen path (ds_fs_open_args_save ds)
                           \<in> set (snd (save core' lib ds data))))"
proof -
  from init_Inr [OF assms] obtain d where
    d: "dict_get (or_empty fs_args) ''open_args_save'' (PDict []) = PDict d"
    and s: "ds_fs_open_args_save ds = dict_setdefault d ''mode'' (PStr ''wb'')" by blast
  from s have "map_of (ds_fs_open_args_save ds) ''mode'' =
               Some (case map_of d ''mode'' of None \<Rightarrow> PStr ''wb'' | Some m \<Rightarrow> m)"
    by (simp add: map_of_dict_setdefault)
  with d save_FsOpen [of core' lib ds data] show ?thesis by blast
qed

theorem save_opens_stream_in_mode_wb_witness:
  "(\<exists>ds. init (demo_core [] (Inr ''test.h5'')) ''test.h5'' None None None None
            (Some [(''open_args_save'', PDict [(''compression'', PNone)])]) = Inr ds
         \<and> map_of (ds_fs_open_args_save ds) ''mode'' = Some (PStr ''wb'')
         \<and> fst (save (demo_core [] (Inr ''test.h5'')) demo_h5py ds [4, 5]) = Inr ()
         \<and> (\<exists>path. FsOpen path (ds_fs_open_args_save ds)
                \<in> set (snd (save (demo_core [] (Inr ''test.h5'')) demo_h5py ds [4, 5]))))
   \<and> (\<exists>ds. init (demo_core [] (Inr ''test.h5'')) ''test.h5'' None None None None
            (Some [(''open_args_save'', PDict [(''mode'', PStr ''ab'')])]) = Inr ds
         \<and> map_of (ds_fs_open_args_save ds) ''mode'' = Some (PStr ''ab''))"
proof -
  let ?core = "demo_core [] (Inr ''test.h5'')"
  let ?ds1 = "\<lparr>ds_protocol = ''file'', ds_fs = demo_fs [], ds_filepath = ''test.h5'',
      ds_version = None, ds_load_args = [], ds_save_args = [],
      ds_fs_open_args_load = PDict [],
      ds_fs_open_args_save = [(''compression'', PNone), (''mode'', PStr ''wb'')]\<rparr>"
  let ?ds2 = "\<lparr>ds_protocol = ''file'', ds_fs = demo_fs [], ds_filepath = ''test.h5'',
      ds_version = None, ds_load_args = [], ds_save_args = [],
      ds_fs_open_args_load = PDict [],
      ds_fs_open_args_save = [(''mode'', PStr ''ab'')]\<rparr>"
  have i1: "init ?core ''test.h5'' None None None None
            (Some [(''open_args_save'', PDict [(''compression'', PNone)])]) = Inr ?ds1"
    by (simp add: init_def demo_core_def or_empty_def dict_pop_def dict_get_def
        AList.delete_eq dict_setdefault_def merge_kwargs_def keys_def val_setdefault_def
        DEFAULT_LOAD_ARGS_def DEFAULT_SAVE_ARGS_def)
  have i2: "init ?core ''test.h5'' None None None None
            (Some [(''open_args_save'', PDict [(''mode'', PStr ''ab'')])]) = Inr ?ds2"
    by (simp add: init_def demo_core_def or_empty_def dict_pop_def dict_get_def
        AList.delete_eq dict_setdefault_def merge_kwargs_def keys_def val_setdefault_def
        DEFAULT_LOAD_ARGS_def DEFAULT_SAVE_ARGS_def)
  have ok: "fst (save ?core demo_h5py ?ds1 [4, 5]) = Inr ()"
    by (simp add: save_def demo_core_def demo_fs_def demo_h5py_def with_fs_open_def
        as_mapping_def merge_kwargs_def keys_def call_def with_lock_def h5py_to_binary_def
        io_lift_def io_return_def invalidate_cache_def)
  from save_opens_stream_in_mode_wb [OF i1, of ?core demo_h5py "[4, 5]"] ok
  have a: "map_of (ds_fs_open_args_save ?ds1) ''mode'' = Some (PStr ''wb'')
         \<and> (\<exists>path. FsOpen path (ds_fs_open_args_save ?ds1)
                \<in> set (snd (save ?core demo_h5py ?ds1 [4, 5])))"
    by (auto simp: or_empty_def dict_get_def)
  from save_opens_stream_in_mode_wb [OF i2, of ?core demo_h5py "[4, 5]"]
  have b: "map_of (ds_fs_open_args_save ?ds2) ''mode'' = Some (PStr ''ab'')"
    by (auto simp: or_empty_def dict_get_def)
  from i1 i2 ok a b show ?thesis by blast
qed

lemma describe_keys:
  "keys (describe ds) = [''filepath'', ''protocol'', ''load_args'', ''save_args'', ''version'']"
  by (simp add: describe_def keys_def)

text \<open>
  \<^bold>\<open>C9.\<close> Two \<^verbatim>\<open>H5pyDataSet\<close>s constructed from the same configuration but for
  \<^verbatim>\<open>credentials\<close> and \<^verbatim>\<open>fs_args\<close> have equal \<^verbatim>\<open>_describe\<close> mappings, whose keys are
  \<^verbatim>\<open>filepath\<close>, \<^verbatim>\<open>protocol\<close>, \<^verbatim>\<open>load_args\<close>, \<^verbatim>\<open>save_args\<close> and \<^verbatim>\<open>version\<close>.
  \<^verbatim>\<open>PlotlyDataSet._describe\<close> adds only \<^verbatim>\<open>plotly_args\<close> to the parent's mapping: when the
  parent's description does not depend on \<^verbatim>\<open>credentials\<close> and \<^verbatim>\<open>fs_args\<close>, neither does
  the description of the \<^verbatim>\<open>PlotlyDataSet\<close>.
\<close>

theorem describe_independent_of_credentials:
  "(\<forall>d1 d2. init core filepath load_args save_args version credentials1 fs_args1 = Inr d1
           \<and> init core filepath load_args save_args version credentials2 fs_args2 = Inr d2
        \<longrightarrow> describe d1 = describe d2
            \<and> keys (describe d1) =
                [''filepath'', ''protocol'', ''load_args'', ''save_args'', ''version''])
   \<and> ((\<forall>j1 j2. JSONDataSet_init parent filepath load_args save_args version
                   credentials1 fs_args1 = Inr j1
              \<and> JSONDataSet_init parent filepath load_args save_args version
                   credentials2 fs_args2 = Inr j2
           \<longrightarrow> JSONDataSet_describe parent j1 = JSONDataSet_describe parent j2)
       \<longrightarrow> (\<forall>p1 p2. PlotlyDataSet_init parent filepath plotly_args load_args save_args version
                        credentials1 fs_args1 = Inr p1
                 \<and> PlotlyDataSet_init parent filepath plotly_args load_args save_args version
                        credentials2 fs_args2 = Inr p2
              \<longrightarrow> PlotlyDataSet_describe parent p1 = PlotlyDataSet_describe parent p2))"
proof (intro conjI allI impI)
  fix d1 d2
  assume a: "init core filepath load_args save_args version credentials1 fs_args1 = Inr d1
           \<and> init core filepath load_args save_args version credentials2 fs_args2 = Inr d2"
  from a init_Inr [of core filepath load_args save_args version credentials1 fs_args1 d1]
    init_Inr [of core filepath load_args save_args version credentials2 fs_args2 d2]
  show "describe d1 = describe d2"
    by (auto simp: describe_def)
  show "keys (describe d1) =
          [''filepath'', ''protocol'', ''load_args'', ''save_args'', ''version'']"
    by (rule describe_keys)
next
  fix p1 p2
  assume j: "\<forall>j1 j2. JSONDataSet_init parent filepath load_args save_args version
                   credentials1 fs_args1 = Inr j1
              \<and> JSONDataSet_init parent filepath load_args save_args version
                   credentials2 fs_args2 = Inr j2
           \<longrightarrow> JSONDataSet_describe parent j1 = JSONDataSet_describe parent j2"
    and p: "PlotlyDataSet_init parent filepath plotly_args load_args save_args version
                        credentials1 fs_args1 = Inr p1
                 \<and> PlotlyDataSet_init parent filepath plotly_args load_args save_args version
                        credentials2 fs_args2 = Inr p2"
  from p obtain j1 j2 where
    "JSONDataSet_init parent filepath load_args save_args version credentials1 fs_args1 = Inr j1"
    "JSONDataSet_init parent filepath load_args save_args version credentials2 fs_args2 = Inr j2"
    "p1 = \<lparr>pds_super = j1, pds_plotly_args = plotly_args\<rparr>"
    "p2 = \<lparr>pds_super = j2, pds_plotly_args = plotly_args\<rparr>"
    by (auto simp: PlotlyDataSet_init_def split: sum.splits)
  with j show "PlotlyDataSet_describe parent p1 = PlotlyDataSet_describe parent p2"
    by (simp add: PlotlyDataSet_describe_def)
qed

theorem describe_independent_of_credentials_witness:
  "(\<exists>d1 d2. init (demo_core [7] (Inr ''test.h5'')) ''test.h5'' None None None
               (Some [(''token'', PStr ''secret'')])
               (Some [(''open_args_save'', PDict [(''mode'', PStr ''ab'')])]) = Inr d1
          \<and> init (demo_core [7] (Inr ''test.h5'')) ''test.h5'' None None None
               None None = Inr d2
          \<and> ds_fs_open_args_save d1 \<noteq> ds_fs_open_args_save d2
          \<and> describe d1 = describe d2
          \<and> describe d1 = [(''filepath'', PPath ''test.h5''), (''protocol'', PStr ''file''),
               (''load_args'', PDict []), (''save_args'', PDict []), (''version'', PNone)])
   \<and> (\<exists>p1 p2. PlotlyDataSet_init demo_json ''plot.json'' [(''type'', PStr ''bar'')] None None None
               (Some [(''token'', PStr ''secret'')]) (Some [(''project'', PStr ''p1'')]) = Inr p1
          \<and> PlotlyDataSet_init demo_json ''plot.json'' [(''type'', PStr ''bar'')] None None None
               None None = Inr p2
          \<and> p1 \<noteq> p2
          \<and> PlotlyDataSet_describe demo_json p1 = PlotlyDataSet_describe demo_json p2
          \<and> PlotlyDataSet_describe demo_json p1 =
              [(''filepath'', PPath ''plot.json''),
               (''plotly_args'', PDict [(''type'', PStr ''bar'')])])"
proof -
  let ?core = "demo_core [7] (Inr ''test.h5'')"
  let ?d1 = "\<lparr>ds_protocol = ''file'', ds_fs = demo_fs [7], ds_filepath = ''test.h5'',
      ds_version = None, ds_load_args = [], ds_save_args = [],
      ds_fs_open_args_load = PDict [],
      ds_fs_open_args_save = [(''mode'', PStr ''ab'')]\<rparr>"
  let ?d2 = "\<lparr>ds_protocol = ''file'', ds_fs = demo_fs [], ds_filepath = ''test.h5'',
      ds_version = None, ds_load_args = [], ds_save_args = [],
      ds_fs_open_args_load = PDict [],
      ds_fs_open_args_save = [(''mode'', PStr ''wb'')]\<rparr>"
  let ?p1 = "\<lparr>pds_super = ([(''filepath'', PPath ''plot.json'')], Some [(''token'', PStr ''secret'')]),
             pds_plotly_args = [(''type'', PStr ''bar'')]\<rparr>"
  let ?p2 = "\<lparr>pds_super = ([(''filepath'', PPath ''plot.json'')], None),
             pds_plotly_args = [(''type'', PStr ''bar'')]\<rparr>"
  have i1: "init ?core ''test.h5'' None None None
               (Some [(''token'', PStr ''secret'')])
               (Some [(''open_args_save'', PDict [(''mode'', PStr ''ab'')])]) = Inr ?d1"
    by (simp add: init_def demo_core_def or_empty_def dict_pop_def dict_get_def
        AList.delete_eq dict_setdefault_def merge_kwargs_def keys_def val_setdefault_def
        DEFAULT_LOAD_ARGS_def DEFAULT_SAVE_ARGS_def)
  have i2: "init ?core ''test.h5'' None None None None None = Inr ?d2"
    by (simp add: init_def demo_core_def or_empty_def dict_pop_def dict_get_def
        AList.delete_eq dict_setdefault_def merge_kwargs_def keys_def val_setdefault_def
        DEFAULT_LOAD_ARGS_def DEFAULT_SAVE_ARGS_def)
  have p1: "PlotlyDataSet_init demo_json ''plot.json'' [(''type'', PStr ''bar'')] None None None
               (Some [(''token'', PStr ''secret'')]) (Some [(''project'', PStr ''p1'')]) = Inr ?p1"
    by (simp add: PlotlyDataSet_init_def demo_json_def)
  have p2: "PlotlyDataSet_init demo_json ''plot.json'' [(''type'', PStr ''bar'')] None None None
               None None = Inr ?p2"
    by (simp add: PlotlyDataSet_init_def demo_json_def)
  note th1 = describe_independent_of_credentials
      [of ?core "''test.h5''" None None None "Some [(''token'', PStr ''secret'')]"
          "Some [(''open_args_save'', PDict [(''mode'', PStr ''ab'')])]" None None
          demo_json "[]", THEN conjunct1, rule_format]
  note th2 = describe_independent_of_credentials
      [of ?core "''plot.json''" None None None "Some [(''token'', PStr ''secret'')]"
          "Some [(''project'', PStr ''p1'')]" None None demo_json "[(''type'', PStr ''bar'')]",
          THEN conjunct2, rule_format]
  from th1 [of ?d1 ?d2] i1 i2 have a: "describe ?d1 = describe ?d2" by simp
  have b: "PlotlyDataSet_describe demo_json ?p1 = PlotlyDataSet_describe demo_json ?p2"
  proof (rule th2)
    fix j1 j2
    assume "JSONDataSet_init demo_json ''plot.json'' None None None
                   (Some [(''token'', PStr ''secret'')]) (Some [(''project'', PStr ''p1'')]) = Inr j1
              \<and> JSONDataSet_init demo_json ''plot.json'' None None None None None = Inr j2"
    then show "JSONDataSet_describe demo_json j1 = JSONDataSet_describe demo_json j2"
      by (auto simp: demo_json_def)
  next
    from p1 p2 show "PlotlyDataSet_init demo_json ''plot.json'' [(''type'', PStr ''bar'')] None None None
               (Some [(''token'', PStr ''secret'')]) (Some [(''project'', PStr ''p1'')]) = Inr ?p1
          \<and> PlotlyDataSet_init demo_json ''plot.json'' [(''type'', PStr ''bar'')] None None None
               None None = Inr ?p2" by simp
  qed
  have c: "describe ?d1 = [(''filepath'', PPath ''test.h5''), (''protocol'', PStr ''file''),
               (''load_args'', PDict []), (''save_args'', PDict []), (''version'', PNone)]"
    by (simp add: describe_def version_val_def)
  have d: "PlotlyDataSet_describe demo_json ?p1 =
              [(''filepath'', PPath ''plot.json''),
               (''plotly_args'', PDict [(''type'', PStr ''bar'')])]"
    by (simp add: PlotlyDataSet_describe_def demo_json_def dict_update_def)
  have ne: "ds_fs_open_args_save ?d1 \<noteq> ds_fs_open_args_save ?d2" "?p1 \<noteq> ?p2"
    by simp_all
  from i1 i2 a c ne(1) have A: "\<exists>d1 d2. init ?core ''test.h5'' None None None
               (Some [(''token'', PStr ''secret'')])
               (Some [(''open_args_save'', PDict [(''mode'', PStr ''ab'')])]) = Inr d1
          \<and> init ?core ''test.h5'' None None None None None = Inr d2
          \<and> ds_fs_open_args_save d1 \<noteq> ds_fs_open_args_save d2
          \<and> describe d1 = describe d2
          \<and> describe d1 = [(''filepath'', PPath ''test.h5''), (''protocol'', PStr ''file''),
               (''load_args'', PDict []), (''save_args'', PDict []), (''version'', PNone)]"
    by (intro exI [of _ ?d1] exI [of _ ?d2]) (simp only: simp_thms)
  from p1 p2 b d ne(2) have B: "\<exists>p1 p2. PlotlyDataSet_init demo_json ''plot.json'' [(''type'', PStr ''bar'')] None None None
               (Some [(''token'', PStr ''secret'')]) (Some [(''project'', PStr ''p1'')]) = Inr p1
          \<and> PlotlyDataSet_init demo_json ''plot.json'' [(''type'', PStr ''bar'')] None None None
               None None = Inr p2
          \<and> p1 \<noteq> p2
          \<and> PlotlyDataSet_describe demo_json p1 = PlotlyDataSet_describe demo_json p2
          \<and> PlotlyDataSet_describe demo_json p1 =
              [(''filepath'', PPath ''plot.json''),
               (''plotly_args'', PDict [(''type'', PStr ''bar'')])]"
    by (intro exI [of _ ?p1] exI [of _ ?p2]) (simp only: simp_thms)
  from A B show ?thesis by blast
qed

section \<open>Building and saving a chart\<close>

lemma plot_dataframe_Inr:
  assumes "plot_dataframe lib plotly_args data = (Inr fig, t)"
  shows "\<exists>kind f kw fig0 fig1.
           dict_get plotly_args ''type'' PNone = PStr kind
         \<and> px lib kind = Some (Callable f)
         \<and> dict_get plotly_args ''fig'' (PDict []) = PDict kw
         \<and> f data kw = Inr (Figure fig0)
         \<and> update_layout lib fig0 None
              [(''template'', dict_get plotly_args ''theme'' (PStr ''plotly''))] = Inr fig1
         \<and> update_layout lib fig1 (Some (dict_get plotly_args ''layout'' (PDict []))) [] = Inr fig
         \<and> t = [PxCall kind kw,
                 UpdateLayout None [(''template'', dict_get plotly_args ''theme'' (PStr ''plotly''))],
                 UpdateLayout (Some (dict_get plotly_args ''layout'' (PDict []))) []]"
  using assms
  unfolding plot_dataframe_def Let_def getattr_px_def as_mapping_def
  by (auto simp: io_lift_def io_raise_def io_return_def call_def io_bind_def
      split: pyval.splits option.splits px_attr.splits sum.splits pyobj.splits prod.splits)

lemma plot_dataframe_returns:
  assumes "dict_get plotly_args ''type'' PNone = PStr kind"
    and "px lib kind = Some (Callable f)"
    and "dict_get plotly_args ''fig'' (PDict []) = PDict kw"
    and "f data kw = Inr (Figure fig0)"
    and "update_layout lib fig0 None
           [(''template'', dict_get plotly_args ''theme'' (PStr ''plotly''))] = Inr fig1"
    and "update_layout lib fig1 (Some (dict_get plotly_args ''layout'' (PDict []))) [] = Inr fig2"
  shows "plot_dataframe lib plotly_args data =
           (Inr fig2,
            [PxCall kind kw,
             UpdateLayout None [(''template'', dict_get plotly_args ''theme'' (PStr ''plotly''))],
             UpdateLayout (Some (dict_get plotly_args ''layout'' (PDict []))) []])"
  using assms
  by (simp add: plot_dataframe_def Let_def getattr_px_def as_mapping_def io_return_def call_def)

text \<open>
  \<^bold>\<open>C5.\<close> A \<^verbatim>\<open>_plot_dataframe\<close> that returns has called the constructor, then
  \<^verbatim>\<open>update_layout(template=theme)\<close> with the \<^verbatim>\<open>theme\<close> of the configuration (\<^verbatim>\<open>plotly\<close> when
  absent), then \<^verbatim>\<open>update_layout(layout)\<close>, in this order, and returns the figure of the
  last call. So, for a library whose \<^verbatim>\<open>update_layout\<close> sets the keys it is given, every
  key of \<^verbatim>\<open>layout\<close> has its value in the result, whatever the template brought: with
  \<^verbatim>\<open>layout = {"title": "T"}\<close> the title is \<^verbatim>\<open>T\<close>. And it does return, with that figure,
  when the kind names a constructor and the three calls succeed.
\<close>

theorem layout_overrides_theme:
  assumes contract: "\<And>f d f' k v. update_layout lib f (Some (PDict d)) [] = Inr f' \<Longrightarrow>
                       map_of d k = Some v \<Longrightarrow> layout_of f' k = Some v"
  shows "(\<forall>fig t layout.
            plot_dataframe lib plotly_args data = (Inr fig, t)
          \<and> dict_get plotly_args ''layout'' (PDict []) = PDict layout \<longrightarrow>
            (\<forall>k v. map_of layout k = Some v \<longrightarrow> layout_of fig k = Some v)
          \<and> (\<exists>fig0 fig1 kind kw.
                update_layout lib fig0 None
                  [(''template'', dict_get plotly_args ''theme'' (PStr ''plotly''))] = Inr fig1
              \<and> update_layout lib fig1 (Some (PDict layout)) [] = Inr fig
              \<and> t = [PxCall kind kw,
                      UpdateLayout None
                        [(''template'', dict_get plotly_args ''theme'' (PStr ''plotly''))],
                      UpdateLayout (Some (PDict layout)) []]))
       \<and> (\<forall>kind f kw fig0 fig1 fig2.
            dict_get plotly_args ''type'' PNone = PStr kind
          \<and> px lib kind = Some (Callable f)
          \<and> dict_get plotly_args ''fig'' (PDict []) = PDict kw
          \<and> f data kw = Inr (Figure fig0)
          \<and> update_layout lib fig0 None
               [(''template'', dict_get plotly_args ''theme'' (PStr ''plotly''))] = Inr fig1
          \<and> update_layout lib fig1 (Some (dict_get plotly_args ''layout'' (PDict []))) []
               = Inr fig2 \<longrightarrow>
            fst (plot_dataframe lib plotly_args data) = Inr fig2)"
proof (intro conjI allI impI)
  fix fig t layout
  assume a: "plot_dataframe lib plotly_args data = (Inr fig, t)
          \<and> dict_get plotly_args ''layout'' (PDict []) = PDict layout"
  from a plot_dataframe_Inr [of lib plotly_args data fig t] obtain kind kw fig0 fig1 where
    u1: "update_layout lib fig0 None
              [(''template'', dict_get plotly_args ''theme'' (PStr ''plotly''))] = Inr fig1"
    and u2: "update_layout lib fig1 (Some (PDict layout)) [] = Inr fig"
    and t: "t = [PxCall kind kw,
                 UpdateLayout None [(''template'', dict_get plotly_args ''theme'' (PStr ''plotly''))],
                 UpdateLayout (Some (PDict layout)) []]"
    by auto
  from u1 u2 t show "\<exists>fig0 fig1 kind kw.
                update_layout lib fig0 None
                  [(''template'', dict_get plotly_args ''theme'' (PStr ''plotly''))] = Inr fig1
              \<and> update_layout lib fig1 (Some (PDict layout)) [] = Inr fig
              \<and> t = [PxCall kind kw,
                      UpdateLayout None
                        [(''template'', dict_get plotly_args ''theme'' (PStr ''plotly''))],
                      UpdateLayout (Some (PDict layout)) []]" by blast
  fix k v
  assume "map_of layout k = Some v"
  with contract [OF u2] show "layout_of fig k = Some v" by blast
next
  fix kind f kw fig0 fig1 fig2
  assume "dict_get plotly_args ''type'' PNone = PStr kind
          \<and> px lib kind = Some (Callable f)
          \<and> dict_get plotly_args ''fig'' (PDict []) = PDict kw
          \<and> f data kw = Inr (Figure fig0)
          \<and> update_layout lib fig0 None
               [(''template'', dict_get plotly_args ''theme'' (PStr ''plotly''))] = Inr fig1
          \<and> update_layout lib fig1 (Some (dict_get plotly_args ''layout'' (PDict []))) []
               = Inr fig2"
  then show "fst (plot_dataframe lib plotly_args data) = Inr fig2"
    using plot_dataframe_returns [of plotly_args kind lib f kw data fig0 fig1 fig2] by simp
qed

theorem layout_overrides_theme_witness:
  "(\<exists>fig. plot_dataframe demo_plotly
             [(''type'', PStr ''bar''), (''theme'', PStr ''ggplot2''),
              (''layout'', PDict [(''title'', PStr ''T'')])] demo_df
           = (Inr fig, [PxCall ''bar'' [], UpdateLayout None [(''template'', PStr ''ggplot2'')],
                        UpdateLayout (Some (PDict [(''title'', PStr ''T'')])) []])
          \<and> fig ''title'' = Some (PStr ''T''))
   \<and> (\<exists>fig1. demo_update_layout Map.empty None [(''template'', PStr ''ggplot2'')] = Inr fig1
          \<and> fig1 ''title'' = Some (PStr ''theme title''))"
proof -
  let ?args = "[(''type'', PStr ''bar''), (''theme'', PStr ''ggplot2''),
              (''layout'', PDict [(''title'', PStr ''T'')])]"
  let ?t = "[PxCall ''bar'' [], UpdateLayout None [(''template'', PStr ''ggplot2'')],
                        UpdateLayout (Some (PDict [(''title'', PStr ''T'')])) []]"
  obtain fig where run: "plot_dataframe demo_plotly ?args demo_df = (Inr fig, ?t)"
    by (simp add: plot_dataframe_def demo_plotly_def demo_px_def demo_update_layout_def
        dict_get_def getattr_px_def as_mapping_def io_lift_def io_return_def call_def Let_def)
  have lay: "dict_get ?args ''layout'' (PDict []) = PDict [(''title'', PStr ''T'')]"
    by (simp add: dict_get_def)
  have contract: "\<And>f d f' k v. update_layout demo_plotly f (Some (PDict d)) [] = Inr f' \<Longrightarrow>
                       map_of d k = Some v \<Longrightarrow> f' k = Some v"
    by (auto simp: demo_plotly_def demo_update_layout_def)
  have "\<forall>k v. map_of [(''title'', PStr ''T'')] k = Some v \<longrightarrow> fig k = Some v"
    using layout_overrides_theme
            [where lib = demo_plotly and layout_of = "\<lambda>f. f" and plotly_args = ?args
               and data = demo_df, THEN conjunct1, rule_format, of fig ?t "[(''title'', PStr ''T'')]"]
      contract run lay by blast
  then have "fig ''title'' = Some (PStr ''T'')" by simp
  moreover have "\<exists>fig1. demo_update_layout Map.empty None [(''template'', PStr ''ggplot2'')] = Inr fig1
          \<and> fig1 ''title'' = Some (PStr ''theme title'')"
    by (simp add: demo_update_layout_def)
  ultimately show ?thesis using run by blast
qed

text \<open>
  \<^bold>\<open>C2\<close>, as stated, fails. None of the three kinds below names a chart constructor, yet
  only the first fails at the lookup: \<^verbatim>\<open>colors\<close> names a submodule and the call raises
  \<^verbatim>\<open>TypeError\<close>; \<^verbatim>\<open>Constant\<close> names a class, which is called with the data before the
  object it returns is found to have no \<^verbatim>\<open>update_layout\<close>.
\<close>

theorem build_unsupported_kind_counterexample:
  "plot_dataframe demo_plotly [(''type'', PStr ''not_a_chart'')] demo_df = (Inl AttributeError, [])
   \<and> plot_dataframe demo_plotly [(''type'', PStr ''colors'')] demo_df = (Inl TypeError, [])
   \<and> plot_dataframe demo_plotly [(''type'', PStr ''Constant'')] demo_df
       = (Inl AttributeError, [PxCall ''Constant'' []])"
  by (simp add: plot_dataframe_def demo_plotly_def demo_px_def dict_get_def getattr_px_def
      as_mapping_def io_lift_def io_raise_def call_def)

text \<open>
  \<^bold>\<open>C2\<close>, amended. When the kind is not the name of any attribute of the charting
  namespace, \<^verbatim>\<open>_plot_dataframe\<close> fails with the \<^verbatim>\<open>AttributeError\<close> of the lookup, for
  every input, and has made no call at all: nothing is constructed.
\<close>

theorem build_unknown_kind_fails:
  assumes "dict_get plotly_args ''type'' PNone = PStr kind"
    and "px lib kind = None"
  shows "plot_dataframe lib plotly_args data = (Inl AttributeError, [])"
  using assms by (simp add: plot_dataframe_def getattr_px_def)

theorem build_unknown_kind_fails_witness:
  "dict_get [(''type'', PStr ''not_a_chart'')] ''type'' PNone = PStr ''not_a_chart''
   \<and> px demo_plotly ''not_a_chart'' = None
   \<and> plot_dataframe demo_plotly [(''type'', PStr ''not_a_chart'')] demo_df
       = (Inl AttributeError, [])"
proof -
  have a: "dict_get [(''type'', PStr ''not_a_chart'')] ''type'' PNone = PStr ''not_a_chart''"
    by (simp add: dict_get_def)
  have b: "px demo_plotly ''not_a_chart'' = None"
    by (simp add: demo_plotly_def demo_px_def)
  from a b build_unknown_kind_fails [OF a b, of demo_df] show ?thesis by simp
qed

text \<open>
  \<^bold>\<open>C8.\<close> \<^verbatim>\<open>PlotlyDataSet._save\<close> is the construction of the figure followed by the
  parent's own \<^verbatim>\<open>_save\<close> on that figure, and nothing else: it equals the specification's
  composition, results and call sequences alike.
\<close>

theorem plotly_save_is_build_then_json_save:
  "PlotlyDataSet_save lib parent ds data = spec_save lib parent ds data"
  by (cases "plot_dataframe lib (pds_plotly_args ds) data")
     (auto simp: PlotlyDataSet_save_def spec_save_def Let_def split: sum.splits)

theorem plotly_save_is_build_then_json_save_witness:
  "PlotlyDataSet_save demo_plotly demo_json
     \<lparr>pds_super = ([(''filepath'', PPath ''plot.json'')], None),
      pds_plotly_args = [(''type'', PStr ''bar'')]\<rparr> demo_df
   = (Inr (), [PxCall ''bar'' [], UpdateLayout None [(''template'', PStr ''plotly'')],
               UpdateLayout (Some (PDict [])) [], JsonSave])
   \<and> PlotlyDataSet_save demo_plotly demo_json
     \<lparr>pds_super = ([(''filepath'', PPath ''plot.json'')], None),
      pds_plotly_args = [(''type'', PStr ''not_a_chart'')]\<rparr> demo_df
   = (Inl AttributeError, [])"
proof -
  have "spec_save demo_plotly demo_json
     \<lparr>pds_super = ([(''filepath'', PPath ''plot.json'')], None),
      pds_plotly_args = [(''type'', PStr ''bar'')]\<rparr> demo_df
   = (Inr (), [PxCall ''bar'' [], UpdateLayout None [(''template'', PStr ''plotly'')],
               UpdateLayout (Some (PDict [])) [], JsonSave])"
    by (simp add: spec_save_def plot_dataframe_def demo_plotly_def demo_px_def
        demo_update_layout_def demo_json_def dict_get_def getattr_px_def as_mapping_def
        io_lift_def io_return_def call_def Let_def)
  moreover have "spec_save demo_plotly demo_json
     \<lparr>pds_super = ([(''filepath'', PPath ''plot.json'')], None),
      pds_plotly_args = [(''type'', PStr ''not_a_chart'')]\<rparr> demo_df
   = (Inl AttributeError, [])"
    by (simp add: spec_save_def plot_dataframe_def demo_plotly_def demo_px_def
        dict_get_def getattr_px_def)
  ultimately show ?thesis
    by (simp add: plotly_save_is_build_then_json_save)
qed

end
